theory Spec2Isabelle
  imports Main "HOL-Library.Word"
begin

unbundle bit_operations_syntax

section \<open>Python values, errors and pods\<close>

text \<open>
  The values that travel through the codec are the ones \<^verbatim>\<open>json.loads\<close> produces:
  \<^verbatim>\<open>None\<close>, booleans, integers, floats, strings, lists and dictionaries with string
  keys. A float is \<^verbatim>\<open>NaN\<close>, an infinity with its sign, or a finite number
  \<open>m \<cdot> 2\<^sup>e\<close> given by \<open>m\<close> and \<open>e\<close>. A dictionary is an association list with
  distinct keys, in the order in which the keys were inserted.
\<close>

datatype pyfloat = NaN | Infinity bool | Finite int int

datatype pyval =
    PNone
  | PBool bool
  | PInt int
  | PFloat pyfloat
  | PStr string
  | PList "pyval list"
  | PDict "(string \<times> pyval) list"

text \<open>Every \<^verbatim>\<open>raise\<close> of the source, and every exception of the built-in
  operations it calls, is a value of \<open>pyerror\<close>.\<close>

datatype pyerror =
    KeyError pyval
  | ClassKeyError string
  | ValueError string
  | AttributeError string
  | TypeError string
  | NameError string

definition pybind :: "pyerror + 'a \<Rightarrow> ('a \<Rightarrow> pyerror + 'b) \<Rightarrow> pyerror + 'b" where
  "pybind r f = (case r of Inl e \<Rightarrow> Inl e | Inr x \<Rightarrow> f x)"

text \<open>Python's \<^verbatim>\<open>==\<close> on these values: \<^verbatim>\<open>True == 1 == 1.0\<close>, \<^verbatim>\<open>NaN\<close> is equal
  to nothing, itself included, lists are compared elementwise, dictionaries by their
  items whatever the key order. Inside a list or a dictionary, and for \<^verbatim>\<open>in\<close> and
  \<^verbatim>\<open>remove\<close>, Python takes one and the same object as equal to itself before it asks
  \<^verbatim>\<open>==\<close>; that makes a difference for a value that holds \<^verbatim>\<open>NaN\<close> only, and the
  comparison here is the one of two objects that share no part. The statements about
  \<^verbatim>\<open>==\<close> below are about values without \<^verbatim>\<open>NaN\<close> (\<open>nan_free\<close>), or about a field
  that is \<^verbatim>\<open>NaN\<close> itself, which \<^verbatim>\<open>==\<close> finds unequal to itself.\<close>

fun float_eq :: "pyfloat \<Rightarrow> pyfloat \<Rightarrow> bool" where
  "float_eq (Finite m e) (Finite n f) =
     (m * 2 ^ nat (e - min e f) = n * 2 ^ nat (f - min e f))"
| "float_eq (Infinity a) (Infinity b) = (a = b)"
| "float_eq _ _ = False"

fun py_eq :: "pyval \<Rightarrow> pyval \<Rightarrow> bool" where
  "py_eq PNone PNone = True"
| "py_eq (PBool a) (PBool b) = (a = b)"
| "py_eq (PBool a) (PInt j) = ((if a then 1 else 0) = j)"
| "py_eq (PBool a) (PFloat y) = float_eq (Finite (if a then 1 else 0) 0) y"
| "py_eq (PInt i) (PBool b) = (i = (if b then 1 else 0))"
| "py_eq (PInt i) (PInt j) = (i = j)"
| "py_eq (PInt i) (PFloat y) = float_eq (Finite i 0) y"
| "py_eq (PFloat x) (PBool b) = float_eq x (Finite (if b then 1 else 0) 0)"
| "py_eq (PFloat x) (PInt j) = float_eq x (Finite j 0)"
| "py_eq (PFloat x) (PFloat y) = float_eq x y"
| "py_eq (PStr s) (PStr t) = (s = t)"
| "py_eq (PList xs) (PList ys) = list_all2 py_eq xs ys"
| "py_eq (PDict a) (PDict b) =
     (length a = length b \<and>
      list_all (\<lambda>kv. list_ex (\<lambda>kw. fst kv = fst kw \<and> py_eq (snd kv) (snd kw)) b) a)"
| "py_eq _ _ = False"

text \<open>A value that holds no \<^verbatim>\<open>NaN\<close>, at any depth.\<close>

fun nan_free :: "pyval \<Rightarrow> bool" where
  "nan_free (PFloat x) = (x \<noteq> NaN)"
| "nan_free (PList xs) = list_all nan_free xs"
| "nan_free (PDict kvs) = list_all (\<lambda>kv. nan_free (snd kv)) kvs"
| "nan_free _ = True"

text \<open>\<^verbatim>\<open>x in xs\<close>, \<^verbatim>\<open>xs.remove(x)\<close> (the first equal item goes; ValueError when
  there is none), \<^verbatim>\<open>list(x)\<close> and \<^verbatim>\<open>copy(x)\<close>. Values are immutable here, so a
  shallow copy is the value itself; the aliasing that \<^verbatim>\<open>copy\<close> is about is modelled
  on a store in the section on defensive copies.\<close>

definition py_in :: "pyval \<Rightarrow> pyval list \<Rightarrow> bool" where
  "py_in v xs = list_ex (py_eq v) xs"

fun list_remove :: "pyval list \<Rightarrow> pyval \<Rightarrow> pyerror + pyval list" where
  "list_remove [] v = Inl (ValueError ''list.remove(x): x not in list'')"
| "list_remove (x # xs) v =
     (if py_eq x v then Inr xs
      else case list_remove xs v of Inl e \<Rightarrow> Inl e | Inr ys \<Rightarrow> Inr (x # ys))"

fun py_list :: "pyval \<Rightarrow> pyerror + pyval list" where
  "py_list (PList xs) = Inr xs"
| "py_list (PStr s) = Inr (map (\<lambda>c. PStr [c]) s)"
| "py_list (PDict kvs) = Inr (map (\<lambda>kv. PStr (fst kv)) kvs)"
| "py_list _ = Inl (TypeError ''object is not iterable'')"

definition copy :: "pyval \<Rightarrow> pyval" where
  "copy v = v"

text \<open>A pod is a dictionary: \<^verbatim>\<open>pod[k]\<close>, \<^verbatim>\<open>pod.get(k)\<close>, \<^verbatim>\<open>k in pod\<close> and
  \<^verbatim>\<open>pod[k] = v\<close>. The list records the history of the insertions (a new key goes
  last, an old one keeps its place). It is not the order in which the dictionary yields
  its keys: \<^verbatim>\<open>ddp.py\<close> is Python 2, whose dictionaries are hash tables that are read
  slot by slot (\<open>dict_keys\<close> below).\<close>

type_synonym pod = "(string \<times> pyval) list"

definition pod_getitem :: "pod \<Rightarrow> string \<Rightarrow> pyerror + pyval" where
  "pod_getitem pod k = (case map_of pod k of None \<Rightarrow> Inl (KeyError (PStr k)) | Some v \<Rightarrow> Inr v)"

definition pod_get :: "pod \<Rightarrow> string \<Rightarrow> pyval" where
  "pod_get pod k = (case map_of pod k of None \<Rightarrow> PNone | Some v \<Rightarrow> v)"

definition pod_contains :: "string \<Rightarrow> pod \<Rightarrow> bool" where
  "pod_contains k pod = (k \<in> set (map fst pod))"

fun pod_setitem :: "pod \<Rightarrow> string \<Rightarrow> pyval \<Rightarrow> pod" where
  "pod_setitem [] k v = [(k, v)]"
| "pod_setitem (kw # pod) k v =
     (if fst kw = k then (k, v) # pod else kw # pod_setitem pod k v)"

definition pod_keys :: "pod \<Rightarrow> string list" where
  "pod_keys pod = map fst pod"

text \<open>Two pods are equal modulo key order when they hold the same keys with the same
  values.\<close>

definition pod_equal :: "pod \<Rightarrow> pod \<Rightarrow> bool" where
  "pod_equal p q = (set p = set q)"

subsection \<open>The order in which a dictionary yields its keys\<close>

text \<open>CPython 2.7 on a 64-bit machine, hash randomisation off as it is by default.
  \<^verbatim>\<open>string_hash\<close> of \<^verbatim>\<open>stringobject.c\<close>, on the machine word:
  \<^verbatim>\<open>x = *p << 7; while (--len >= 0) x = (1000003*x) ^ *p++; x ^= len;\<close>
  and \<^verbatim>\<open>-1\<close> is replaced by \<^verbatim>\<open>-2\<close>.\<close>

fun hash_loop :: "64 word \<Rightarrow> string \<Rightarrow> 64 word" where
  "hash_loop x [] = x"
| "hash_loop x (c # cs) = hash_loop ((1000003 * x) XOR of_char c) cs"

definition string_hash :: "string \<Rightarrow> 64 word" where
  "string_hash s =
     (case s of
        [] \<Rightarrow> 0
      | c # cs \<Rightarrow>
          (let x = hash_loop (push_bit 7 (of_char c)) s XOR of_nat (length s)
           in if x = - 1 then - 2 else x))"

text \<open>The table of a dictionary (\<^verbatim>\<open>dictobject.c\<close>): a power of two of slots, at
  least eight, each empty or holding a key and its value; the mask is the size less
  one. Pods lose no key, so no slot holds a deleted entry.
  \<^verbatim>\<open>lookdict_string\<close> looks at the slot \<^verbatim>\<open>hash & mask\<close> and then, while the slot is
  taken by another key, at \<^verbatim>\<open>i = (i << 2) + i + perturb + 1\<close> with
  \<^verbatim>\<open>perturb >>= 5\<close> after each step.\<close>

type_synonym table = "(string \<times> pyval) option list"

partial_function (option) lookdict_probe ::
  "table \<Rightarrow> string \<Rightarrow> 64 word \<Rightarrow> 64 word \<Rightarrow> nat option" where
  "lookdict_probe t key i perturb =
     (let i' = push_bit 2 i + i + perturb + 1;
          slot = unat (i' AND of_nat (length t - 1))
      in case t ! slot of
           None \<Rightarrow> Some slot
         | Some (k, v) \<Rightarrow>
             if k = key then Some slot
             else lookdict_probe t key i' (drop_bit 5 perturb))"

declare lookdict_probe.simps [code]

definition lookdict_string :: "table \<Rightarrow> string \<Rightarrow> nat option" where
  "lookdict_string t key =
     (let hash = string_hash key; i = hash AND of_nat (length t - 1)
      in case t ! unat i of
           None \<Rightarrow> Some (unat i)
         | Some (k, v) \<Rightarrow>
             if k = key then Some (unat i) else lookdict_probe t key i hash)"

definition insertdict :: "table \<Rightarrow> string \<Rightarrow> pyval \<Rightarrow> table option" where
  "insertdict t key v =
     map_option (\<lambda>slot. t[slot := Some (key, v)]) (lookdict_string t key)"

definition ma_used :: "table \<Rightarrow> nat" where
  "ma_used t = length (filter (\<lambda>entry. entry \<noteq> None) t)"

definition entries :: "table \<Rightarrow> (string \<times> pyval) list" where
  "entries t = concat (map (\<lambda>entry. case entry of None \<Rightarrow> [] | Some kv \<Rightarrow> [kv]) t)"

text \<open>\<^verbatim>\<open>dictresize\<close>: the new size is the first power of two above \<^verbatim>\<open>minused\<close>,
  from eight on, and the entries are inserted into the new table slot by slot.\<close>

partial_function (option) new_size :: "nat \<Rightarrow> nat \<Rightarrow> nat option" where
  "new_size newsize minused =
     (if newsize \<le> minused then new_size (2 * newsize) minused else Some newsize)"

declare new_size.simps [code]

fun insert_entries :: "table \<Rightarrow> (string \<times> pyval) list \<Rightarrow> table option" where
  "insert_entries t [] = Some t"
| "insert_entries t (kv # kvs) =
     (case insertdict t (fst kv) (snd kv) of
        None \<Rightarrow> None
      | Some t' \<Rightarrow> insert_entries t' kvs)"

definition dictresize :: "table \<Rightarrow> nat \<Rightarrow> table option" where
  "dictresize t minused =
     (case new_size 8 minused of
        None \<Rightarrow> None
      | Some newsize \<Rightarrow> insert_entries (replicate newsize None) (entries t))"

text \<open>\<^verbatim>\<open>PyDict_SetItem\<close>: insert, and resize when the insertion added a key and the
  table is two thirds full or more.\<close>

definition PyDict_SetItem :: "table \<Rightarrow> string \<Rightarrow> pyval \<Rightarrow> table option" where
  "PyDict_SetItem t key v =
     (case insertdict t key v of
        None \<Rightarrow> None
      | Some t' \<Rightarrow>
          if ma_used t' > ma_used t \<and> ma_used t' * 3 \<ge> length t' * 2
          then dictresize t' ((if ma_used t' > 50000 then 2 else 4) * ma_used t')
          else Some t')"

fun set_items :: "table \<Rightarrow> (string \<times> pyval) list \<Rightarrow> table option" where
  "set_items t [] = Some t"
| "set_items t (kv # kvs) =
     (case PyDict_SetItem t (fst kv) (snd kv) of
        None \<Rightarrow> None
      | Some t' \<Rightarrow> set_items t' kvs)"

text \<open>The keys of a pod in the order in which the dictionary yields them, to
  \<^verbatim>\<open>json.dumps\<close> for one: the dictionary starts with eight empty slots, the keys
  are inserted in the order of the history, and the table is read from the first slot
  to the last.\<close>

definition dict_keys :: "(string \<times> pyval) list \<Rightarrow> string list option" where
  "dict_keys pod = map_option (\<lambda>t. map fst (entries t)) (set_items (replicate 8 None) pod)"

section \<open>Utilities\<close>

definition exists :: "pyval \<Rightarrow> bool" where
  "exists obj = (obj \<noteq> PNone)"

definition nexists :: "pyval list \<Rightarrow> nat" where
  "nexists iterable = length (filter exists iterable)"

section \<open>Messages\<close>

text \<open>One constructor per message class, holding the private attributes in the order
  \<^verbatim>\<open>__init__\<close> assigns them. An optional field that is absent holds \<open>PNone\<close>.\<close>

datatype message =
    ConnectMessage pyval pyval pyval
  | MethodMessage pyval pyval pyval
  | SubMessage pyval pyval pyval
  | UnsubMessage pyval
  | AddedMessage pyval pyval pyval
  | AddedBeforeMessage pyval pyval pyval pyval
  | ChangedMessage pyval pyval pyval pyval
  | ConnectedMessage pyval
  | ErrorMessage pyval pyval
  | FailedMessage pyval
  | MovedBeforeMessage pyval pyval pyval
  | NosubMessage pyval pyval
  | ReadyMessage pyval
  | RemovedMessage pyval pyval
  | ResultMessage pyval pyval pyval
  | UpdatedMessage pyval

text \<open>\<^verbatim>\<open>type(message)\<close>, by the name of the class.\<close>

fun type' :: "message \<Rightarrow> string" where
  "type' (ConnectMessage _ _ _) = ''ConnectMessage''"
| "type' (MethodMessage _ _ _) = ''MethodMessage''"
| "type' (SubMessage _ _ _) = ''SubMessage''"
| "type' (UnsubMessage _) = ''UnsubMessage''"
| "type' (AddedMessage _ _ _) = ''AddedMessage''"
| "type' (AddedBeforeMessage _ _ _ _) = ''AddedBeforeMessage''"
| "type' (ChangedMessage _ _ _ _) = ''ChangedMessage''"
| "type' (ConnectedMessage _) = ''ConnectedMessage''"
| "type' (ErrorMessage _ _) = ''ErrorMessage''"
| "type' (FailedMessage _) = ''FailedMessage''"
| "type' (MovedBeforeMessage _ _ _) = ''MovedBeforeMessage''"
| "type' (NosubMessage _ _) = ''NosubMessage''"
| "type' (ReadyMessage _) = ''ReadyMessage''"
| "type' (RemovedMessage _ _) = ''RemovedMessage''"
| "type' (ResultMessage _ _ _) = ''ResultMessage''"
| "type' (UpdatedMessage _) = ''UpdatedMessage''"

subsection \<open>Constructors\<close>

definition ConnectMessage_init :: "pyval \<Rightarrow> pyval \<Rightarrow> pyval \<Rightarrow> pyerror + message" where
  "ConnectMessage_init version support session =
     pybind
       (if support \<noteq> PNone then
          pybind (py_list support) (\<lambda>support.
          pybind (if py_in version support then list_remove support version
                  else Inr support) (\<lambda>support.
          Inr (if support = [] then PNone else PList support)))
        else Inr support)
       (\<lambda>support. Inr (ConnectMessage version support session))"

definition MethodMessage_init :: "pyval \<Rightarrow> pyval \<Rightarrow> pyval \<Rightarrow> message" where
  "MethodMessage_init id' method' params = MethodMessage id' method' (copy params)"

definition SubMessage_init :: "pyval \<Rightarrow> pyval \<Rightarrow> pyval \<Rightarrow> message" where
  "SubMessage_init id' name params = SubMessage id' name (copy params)"

definition UnsubMessage_init :: "pyval \<Rightarrow> message" where
  "UnsubMessage_init id' = UnsubMessage id'"

definition AddedMessage_init :: "pyval \<Rightarrow> pyval \<Rightarrow> pyval \<Rightarrow> message" where
  "AddedMessage_init collection id' fields = AddedMessage collection id' (copy fields)"

definition AddedBeforeMessage_init :: "pyval \<Rightarrow> pyval \<Rightarrow> pyval \<Rightarrow> pyval \<Rightarrow> message" where
  "AddedBeforeMessage_init collection id' before fields =
     AddedBeforeMessage collection id' before (copy fields)"

definition ChangedMessage_init :: "pyval \<Rightarrow> pyval \<Rightarrow> pyval \<Rightarrow> pyval \<Rightarrow> message" where
  "ChangedMessage_init collection id' cleared fields =
     ChangedMessage collection id' (copy cleared) (copy fields)"

definition ConnectedMessage_init :: "pyval \<Rightarrow> message" where
  "ConnectedMessage_init session = ConnectedMessage session"

definition ErrorMessage_init :: "pyval \<Rightarrow> pyval \<Rightarrow> message" where
  "ErrorMessage_init reason offending_pod = ErrorMessage reason offending_pod"

definition FailedMessage_init :: "pyval \<Rightarrow> message" where
  "FailedMessage_init version = FailedMessage version"

definition MovedBeforeMessage_init :: "pyval \<Rightarrow> pyval \<Rightarrow> pyval \<Rightarrow> message" where
  "MovedBeforeMessage_init collection id' before = MovedBeforeMessage collection id' before"

definition NosubMessage_init :: "pyval \<Rightarrow> pyval \<Rightarrow> message" where
  "NosubMessage_init id' error = NosubMessage id' error"

definition ReadyMessage_init :: "pyval \<Rightarrow> message" where
  "ReadyMessage_init subs = ReadyMessage (copy subs)"

definition RemovedMessage_init :: "pyval \<Rightarrow> pyval \<Rightarrow> message" where
  "RemovedMessage_init collection id' = RemovedMessage collection id'"

definition ResultMessage_init :: "pyval \<Rightarrow> pyval \<Rightarrow> pyval \<Rightarrow> pyerror + message" where
  "ResultMessage_init id' error result =
     (if nexists [error, result] \<noteq> 1
      then Inl (ValueError ''either error or result must be given'')
      else Inr (ResultMessage id' error result))"

definition UpdatedMessage_init :: "pyval \<Rightarrow> message" where
  "UpdatedMessage_init methods = UpdatedMessage (copy methods)"

subsection \<open>Accessors\<close>

text \<open>A property or method read on an object of a class that does not define it raises
  AttributeError, as does a property of an optional field that is absent.\<close>

definition no_attribute :: "message \<Rightarrow> string \<Rightarrow> pyerror + 'a" where
  "no_attribute message attr =
     Inl (AttributeError (type' message @ '' object has no attribute '' @ attr))"

fun version :: "message \<Rightarrow> pyerror + pyval" where
  "version (ConnectMessage v s ss) = Inr v"
| "version (FailedMessage v) = Inr v"
| "version message = no_attribute message ''version''"

fun has_support :: "message \<Rightarrow> pyerror + bool" where
  "has_support (ConnectMessage v s ss) = Inr (s \<noteq> PNone)"
| "has_support message = no_attribute message ''has_support''"

fun has_session :: "message \<Rightarrow> pyerror + bool" where
  "has_session (ConnectMessage v s ss) = Inr (ss \<noteq> PNone)"
| "has_session message = no_attribute message ''has_session''"

fun support :: "message \<Rightarrow> pyerror + pyval" where
  "support (ConnectMessage v s ss) =
     pybind (has_support (ConnectMessage v s ss)) (\<lambda>h.
       if \<not> h then Inl (AttributeError ''connect message has no `support` field'')
       else Inr s)"
| "support message = no_attribute message ''support''"

fun session :: "message \<Rightarrow> pyerror + pyval" where
  "session (ConnectMessage v s ss) =
     pybind (has_session (ConnectMessage v s ss)) (\<lambda>h.
       if \<not> h then Inl (AttributeError ''connect message has no `session` field'')
       else Inr ss)"
| "session (ConnectedMessage ss) = Inr ss"
| "session message = no_attribute message ''session''"

fun id' :: "message \<Rightarrow> pyerror + pyval" where
  "id' (MethodMessage i m p) = Inr i"
| "id' (SubMessage i n p) = Inr i"
| "id' (UnsubMessage i) = Inr i"
| "id' (AddedMessage c i f) = Inr i"
| "id' (AddedBeforeMessage c i b f) = Inr i"
| "id' (ChangedMessage c i cl f) = Inr i"
| "id' (MovedBeforeMessage c i b) = Inr i"
| "id' (NosubMessage i e) = Inr i"
| "id' (RemovedMessage c i) = Inr i"
| "id' (ResultMessage i e r) = Inr i"
| "id' message = no_attribute message ''id_''"

fun method' :: "message \<Rightarrow> pyerror + pyval" where
  "method' (MethodMessage i m p) = Inr m"
| "method' message = no_attribute message ''method''"

fun name :: "message \<Rightarrow> pyerror + pyval" where
  "name (SubMessage i n p) = Inr n"
| "name message = no_attribute message ''name''"

fun has_params :: "message \<Rightarrow> pyerror + bool" where
  "has_params (SubMessage i n p) = Inr (p \<noteq> PNone)"
| "has_params message = no_attribute message ''has_params''"

fun params :: "message \<Rightarrow> pyerror + pyval" where
  "params (MethodMessage i m p) = Inr (copy p)"
| "params (SubMessage i n p) =
     pybind (has_params (SubMessage i n p)) (\<lambda>h.
       if \<not> h then Inl (AttributeError ''sub message has no `params` field'')
       else Inr p)"
| "params message = no_attribute message ''params''"

fun collection :: "message \<Rightarrow> pyerror + pyval" where
  "collection (AddedMessage c i f) = Inr c"
| "collection (AddedBeforeMessage c i b f) = Inr c"
| "collection (ChangedMessage c i cl f) = Inr c"
| "collection (MovedBeforeMessage c i b) = Inr c"
| "collection (RemovedMessage c i) = Inr c"
| "collection message = no_attribute message ''collection''"

fun before :: "message \<Rightarrow> pyerror + pyval" where
  "before (AddedBeforeMessage c i b f) = Inr b"
| "before (MovedBeforeMessage c i b) = Inr b"
| "before message = no_attribute message ''before''"

fun has_fields :: "message \<Rightarrow> pyerror + bool" where
  "has_fields (AddedMessage c i f) = Inr (f \<noteq> PNone)"
| "has_fields (AddedBeforeMessage c i b f) = Inr (f \<noteq> PNone)"
| "has_fields (ChangedMessage c i cl f) = Inr (f \<noteq> PNone)"
| "has_fields message = no_attribute message ''has_fields''"

fun has_cleared :: "message \<Rightarrow> pyerror + bool" where
  "has_cleared (ChangedMessage c i cl f) = Inr (cl \<noteq> PNone)"
| "has_cleared message = no_attribute message ''has_cleared''"

fun fields' :: "message \<Rightarrow> pyerror + pyval" where
  "fields' (AddedMessage c i f) =
     pybind (has_fields (AddedMessage c i f)) (\<lambda>h.
       if \<not> h then Inl (AttributeError ''added message has no `added` field'')
       else Inr (copy f))"
| "fields' (AddedBeforeMessage c i b f) =
     pybind (has_fields (AddedBeforeMessage c i b f)) (\<lambda>h.
       if \<not> h then Inl (AttributeError ''added before message has no `fields` field'')
       else Inr (copy f))"
| "fields' (ChangedMessage c i cl f) =
     pybind (has_fields (ChangedMessage c i cl f)) (\<lambda>h.
       if \<not> h then Inl (AttributeError ''changed message has no `fields` field'')
       else Inr (copy f))"
| "fields' message = no_attribute message ''fields''"

fun cleared :: "message \<Rightarrow> pyerror + pyval" where
  "cleared (ChangedMessage c i cl f) =
     pybind (has_cleared (ChangedMessage c i cl f)) (\<lambda>h.
       if \<not> h then Inl (AttributeError ''changed message has no `cleared` field'')
       else Inr (copy cl))"
| "cleared message = no_attribute message ''cleared''"

fun reason :: "message \<Rightarrow> pyerror + pyval" where
  "reason (ErrorMessage r p) = Inr r"
| "reason message = no_attribute message ''reason''"

fun offending_pod :: "message \<Rightarrow> pyerror + pyval" where
  "offending_pod (ErrorMessage r p) = Inr p"
| "offending_pod message = no_attribute message ''offending_pod''"

fun has_error :: "message \<Rightarrow> pyerror + bool" where
  "has_error (NosubMessage i e) = Inr (e \<noteq> PNone)"
| "has_error (ResultMessage i e r) = Inr (e \<noteq> PNone)"
| "has_error message = no_attribute message ''has_error''"

fun has_result :: "message \<Rightarrow> pyerror + bool" where
  "has_result (ResultMessage i e r) = Inr (r \<noteq> PNone)"
| "has_result message = no_attribute message ''has_result''"

fun error :: "message \<Rightarrow> pyerror + pyval" where
  "error (NosubMessage i e) =
     pybind (has_error (NosubMessage i e)) (\<lambda>h.
       if \<not> h then Inl (AttributeError ''nosub message has no `error` field'')
       else Inr e)"
| "error (ResultMessage i e r) =
     pybind (has_error (ResultMessage i e r)) (\<lambda>h.
       if \<not> h then Inl (AttributeError ''result message has no `error` field'')
       else Inr e)"
| "error message = no_attribute message ''error''"

fun result :: "message \<Rightarrow> pyerror + pyval" where
  "result (ResultMessage i e r) =
     pybind (has_result (ResultMessage i e r)) (\<lambda>h.
       if \<not> h then Inl (AttributeError ''result message has not `result` field'')
       else Inr r)"
| "result message = no_attribute message ''result''"

fun subs :: "message \<Rightarrow> pyerror + pyval" where
  "subs (ReadyMessage s) = Inr (copy s)"
| "subs message = no_attribute message ''subs''"

fun methods :: "message \<Rightarrow> pyerror + pyval" where
  "methods (UpdatedMessage m) = Inr (copy m)"
| "methods message = no_attribute message ''methods''"

section \<open>Message constants\<close>

abbreviation MSG_CONNECT :: string where "MSG_CONNECT \<equiv> ''connect''"
abbreviation MSG_METHOD :: string where "MSG_METHOD \<equiv> ''method''"
abbreviation MSG_SUB :: string where "MSG_SUB \<equiv> ''sub''"
abbreviation MSG_UNSUB :: string where "MSG_UNSUB \<equiv> ''unsub''"
abbreviation MSG_ADDED :: string where "MSG_ADDED \<equiv> ''added''"
abbreviation MSG_ADDED_BEFORE :: string where "MSG_ADDED_BEFORE \<equiv> ''addedBefore''"
abbreviation MSG_CHANGED :: string where "MSG_CHANGED \<equiv> ''changed''"
abbreviation MSG_CONNECTED :: string where "MSG_CONNECTED \<equiv> ''connected''"
abbreviation MSG_ERROR :: string where "MSG_ERROR \<equiv> ''error''"
abbreviation MSG_FAILED :: string where "MSG_FAILED \<equiv> ''failed''"
abbreviation MSG_MOVED_BEFORE :: string where "MSG_MOVED_BEFORE \<equiv> ''movedBefore''"
abbreviation MSG_NOSUB :: string where "MSG_NOSUB \<equiv> ''nosub''"
abbreviation MSG_READY :: string where "MSG_READY \<equiv> ''ready''"
abbreviation MSG_REMOVED :: string where "MSG_REMOVED \<equiv> ''removed''"
abbreviation MSG_RESULT :: string where "MSG_RESULT \<equiv> ''result''"
abbreviation MSG_UPDATED :: string where "MSG_UPDATED \<equiv> ''updated''"

section \<open>Message factories: from a pod to a message\<close>

definition ConnectMessageFactory_create :: "pod \<Rightarrow> pyerror + message" where
  "ConnectMessageFactory_create pod =
     pybind (pod_getitem pod ''version'') (\<lambda>version.
     ConnectMessage_init version (pod_get pod ''support'') (pod_get pod ''session''))"

definition MethodMessageFactory_create :: "pod \<Rightarrow> pyerror + message" where
  "MethodMessageFactory_create pod =
     pybind (pod_getitem pod ''id'') (\<lambda>id'.
     pybind (pod_getitem pod ''method'') (\<lambda>method'.
     pybind (pod_getitem pod ''params'') (\<lambda>params.
     Inr (MethodMessage_init id' method' params))))"

definition SubMessageFactory_create :: "pod \<Rightarrow> pyerror + message" where
  "SubMessageFactory_create pod =
     pybind (pod_getitem pod ''id'') (\<lambda>id'.
     pybind (pod_getitem pod ''name'') (\<lambda>name.
     Inr (SubMessage_init id' name (pod_get pod ''params''))))"

definition UnsubMessageFactory_create :: "pod \<Rightarrow> pyerror + message" where
  "UnsubMessageFactory_create pod =
     pybind (pod_getitem pod ''id'') (\<lambda>id'. Inr (UnsubMessage_init id'))"

definition AddedMessageFactory_create :: "pod \<Rightarrow> pyerror + message" where
  "AddedMessageFactory_create pod =
     pybind (pod_getitem pod ''collection'') (\<lambda>collection.
     pybind (pod_getitem pod ''id'') (\<lambda>id'.
     Inr (AddedMessage_init collection id' (pod_get pod ''fields''))))"

definition AddedBeforeMessageFactory_create :: "pod \<Rightarrow> pyerror + message" where
  "AddedBeforeMessageFactory_create pod =
     pybind (pod_getitem pod ''collection'') (\<lambda>collection.
     pybind (pod_getitem pod ''id'') (\<lambda>id'.
     pybind (pod_getitem pod ''before'') (\<lambda>before.
     Inr (AddedBeforeMessage_init collection id' before (pod_get pod ''fields'')))))"

definition ChangedMessageFactory_create :: "pod \<Rightarrow> pyerror + message" where
  "ChangedMessageFactory_create pod =
     pybind (pod_getitem pod ''collection'') (\<lambda>collection.
     pybind (pod_getitem pod ''id'') (\<lambda>id'.
     Inr (ChangedMessage_init collection id' (pod_get pod ''cleared'')
            (pod_get pod ''fields''))))"

definition ConnectedMessageFactory_create :: "pod \<Rightarrow> pyerror + message" where
  "ConnectedMessageFactory_create pod =
     pybind (pod_getitem pod ''session'') (\<lambda>session. Inr (ConnectedMessage_init session))"

definition ErrorMessageFactory_create :: "pod \<Rightarrow> pyerror + message" where
  "ErrorMessageFactory_create pod =
     pybind (pod_getitem pod ''reason'') (\<lambda>reason.
     pybind (pod_getitem pod ''offendingMessage'') (\<lambda>offending_pod.
     Inr (ErrorMessage_init reason offending_pod)))"

definition FailedMessageFactory_create :: "pod \<Rightarrow> pyerror + message" where
  "FailedMessageFactory_create pod =
     pybind (pod_getitem pod ''version'') (\<lambda>version. Inr (FailedMessage_init version))"

definition MovedBeforeMessageFactory_create :: "pod \<Rightarrow> pyerror + message" where
  "MovedBeforeMessageFactory_create pod =
     pybind (pod_getitem pod ''collection'') (\<lambda>collection.
     pybind (pod_getitem pod ''id'') (\<lambda>id'.
     pybind (pod_getitem pod ''before'') (\<lambda>before.
     Inr (MovedBeforeMessage_init collection id' before))))"

definition NosubMessageFactory_create :: "pod \<Rightarrow> pyerror + message" where
  "NosubMessageFactory_create pod =
     pybind (pod_getitem pod ''id'') (\<lambda>id'.
     Inr (NosubMessage_init id' (pod_get pod ''error'')))"

definition ReadyMessageFactory_create :: "pod \<Rightarrow> pyerror + message" where
  "ReadyMessageFactory_create pod =
     pybind (pod_getitem pod ''subs'') (\<lambda>subs. Inr (ReadyMessage_init subs))"

definition RemoveMessageFactory_create :: "pod \<Rightarrow> pyerror + message" where
  "RemoveMessageFactory_create pod =
     pybind (pod_getitem pod ''collection'') (\<lambda>collection.
     pybind (pod_getitem pod ''id'') (\<lambda>id'.
     Inr (RemovedMessage_init collection id')))"

definition ResultMessageFactory_create :: "pod \<Rightarrow> pyerror + message" where
  "ResultMessageFactory_create pod =
     pybind (pod_getitem pod ''id'') (\<lambda>id'.
     ResultMessage_init id' (pod_get pod ''error'') (pod_get pod ''result''))"

definition UpdatedMessageFactory_create :: "pod \<Rightarrow> pyerror + message" where
  "UpdatedMessageFactory_create pod =
     pybind (pod_getitem pod ''methods'') (\<lambda>methods. Inr (UpdatedMessage_init methods))"

section \<open>Pod factories: from a message to a pod\<close>

text \<open>The list that a factory returns is the history of the dictionary: the keys of
  the literal as the source writes them, then the keys that are set afterwards.\<close>

text \<open>\<^verbatim>\<open>if message.has_x(): pod[k] = message.x\<close>\<close>

definition if_has ::
  "pyerror + bool \<Rightarrow> pyerror + pyval \<Rightarrow> pod \<Rightarrow> string \<Rightarrow> pyerror + pod" where
  "if_has has x pod k =
     pybind has (\<lambda>h. if h then pybind x (\<lambda>v. Inr (pod_setitem pod k v)) else Inr pod)"

definition PodConnectMessageFactory_create :: "message \<Rightarrow> pyerror + pod" where
  "PodConnectMessageFactory_create message =
     pybind (version message) (\<lambda>v.
     pybind (if_has (has_support message) (support message)
               [(''msg'', PStr MSG_CONNECT), (''version'', v)] ''support'') (\<lambda>pod.
     if_has (has_session message) (session message) pod ''session''))"

definition PodMethodMessageFactory_create :: "message \<Rightarrow> pyerror + pod" where
  "PodMethodMessageFactory_create message =
     pybind (id' message) (\<lambda>i.
     pybind (method' message) (\<lambda>m.
     pybind (params message) (\<lambda>p.
     Inr [(''msg'', PStr MSG_METHOD), (''id'', i), (''method'', m), (''params'', p)])))"

definition PodSubMessageFactory_create :: "message \<Rightarrow> pyerror + pod" where
  "PodSubMessageFactory_create message =
     pybind (id' message) (\<lambda>i.
     pybind (name message) (\<lambda>n.
     if_has (has_params message) (params message)
       [(''msg'', PStr MSG_SUB), (''id'', i), (''name'', n)] ''params''))"

definition PodUnsubMessageFactory_create :: "message \<Rightarrow> pyerror + pod" where
  "PodUnsubMessageFactory_create message =
     pybind (id' message) (\<lambda>i. Inr [(''msg'', PStr MSG_UNSUB), (''id'', i)])"

definition PodAddedMessageFactory_create :: "message \<Rightarrow> pyerror + pod" where
  "PodAddedMessageFactory_create message =
     pybind (id' message) (\<lambda>i.
     pybind (collection message) (\<lambda>c.
     if_has (has_fields message) (fields' message)
       [(''msg'', PStr MSG_ADDED), (''id'', i), (''collection'', c)] ''fields''))"

definition PodAddedBeforeMessageFactory_create :: "message \<Rightarrow> pyerror + pod" where
  "PodAddedBeforeMessageFactory_create message =
     pybind (collection message) (\<lambda>c.
     pybind (id' message) (\<lambda>i.
     pybind (before message) (\<lambda>b.
     if_has (has_fields message) (fields' message)
       [(''msg'', PStr MSG_ADDED_BEFORE), (''collection'', c), (''id'', i), (''before'', b)]
       ''fields'')))"

definition PodChangedMessageFactory_create :: "message \<Rightarrow> pyerror + pod" where
  "PodChangedMessageFactory_create message =
     pybind (collection message) (\<lambda>c.
     pybind (id' message) (\<lambda>i.
     pybind (if_has (has_cleared message) (cleared message)
               [(''msg'', PStr MSG_CHANGED), (''collection'', c), (''id'', i)] ''cleared'')
       (\<lambda>pod.
     if_has (has_fields message) (fields' message) pod ''fields'')))"

definition PodConnectedMessageFactory_create :: "message \<Rightarrow> pyerror + pod" where
  "PodConnectedMessageFactory_create message =
     pybind (session message) (\<lambda>s. Inr [(''msg'', PStr MSG_CONNECTED), (''session'', s)])"

definition PodErrorMessageFactory_create :: "message \<Rightarrow> pyerror + pod" where
  "PodErrorMessageFactory_create message =
     pybind (reason message) (\<lambda>r.
     pybind (offending_pod message) (\<lambda>p.
     Inr [(''msg'', PStr MSG_ERROR), (''reason'', r), (''offendingMessage'', p)]))"

definition PodFailedMessageFactory_create :: "message \<Rightarrow> pyerror + pod" where
  "PodFailedMessageFactory_create message =
     pybind (version message) (\<lambda>v. Inr [(''msg'', PStr MSG_FAILED), (''version'', v)])"

definition PodMovedBeforeMessageFactory_create :: "message \<Rightarrow> pyerror + pod" where
  "PodMovedBeforeMessageFactory_create message =
     pybind (collection message) (\<lambda>c.
     pybind (id' message) (\<lambda>i.
     pybind (before message) (\<lambda>b.
     Inr [(''msg'', PStr MSG_MOVED_BEFORE), (''collection'', c), (''id'', i),
          (''before'', b)])))"

definition PodNosubMessageFactory_create :: "message \<Rightarrow> pyerror + pod" where
  "PodNosubMessageFactory_create message =
     pybind (id' message) (\<lambda>i.
     if_has (has_error message) (error message)
       [(''msg'', PStr MSG_NOSUB), (''id'', i)] ''error'')"

definition PodReadyMessageFactory_create :: "message \<Rightarrow> pyerror + pod" where
  "PodReadyMessageFactory_create message =
     pybind (subs message) (\<lambda>s. Inr [(''msg'', PStr MSG_READY), (''subs'', s)])"

definition PodRemovedMessageFactory_create :: "message \<Rightarrow> pyerror + pod" where
  "PodRemovedMessageFactory_create message =
     pybind (collection message) (\<lambda>c.
     pybind (id' message) (\<lambda>i.
     Inr [(''msg'', PStr MSG_REMOVED), (''collection'', c), (''id'', i)]))"

definition PodResultMessageFactory_create :: "message \<Rightarrow> pyerror + pod" where
  "PodResultMessageFactory_create message =
     pybind (id' message) (\<lambda>i.
     pybind (if_has (has_error message) (error message)
               [(''msg'', PStr MSG_RESULT), (''id'', i)] ''error'') (\<lambda>pod.
     if_has (has_result message) (result message) pod ''result''))"

definition PodUpdatedMessageFactory_create :: "message \<Rightarrow> pyerror + pod" where
  "PodUpdatedMessageFactory_create message =
     pybind (methods message) (\<lambda>m. Inr [(''msg'', PStr MSG_UPDATED), (''methods'', m)])"

section \<open>Aggregate factories\<close>

text \<open>\<^verbatim>\<open>self._factories[key]\<close>: the registry is a dictionary from each factory's
  \<^verbatim>\<open>SRC_TYPE\<close> to the factory. A key that is a list or a dictionary cannot be
  hashed; any other key that is not registered raises KeyError.\<close>

fun factories_getitem :: "(string \<times> 'f) list \<Rightarrow> pyval \<Rightarrow> pyerror + 'f" where
  "factories_getitem factories (PStr s) =
     (case map_of factories s of None \<Rightarrow> Inl (KeyError (PStr s)) | Some f \<Rightarrow> Inr f)"
| "factories_getitem factories (PList xs) = Inl (TypeError ''unhashable type: list'')"
| "factories_getitem factories (PDict kvs) = Inl (TypeError ''unhashable type: dict'')"
| "factories_getitem factories key = Inl (KeyError key)"

definition class_factories_getitem :: "(string \<times> 'f) list \<Rightarrow> string \<Rightarrow> pyerror + 'f" where
  "class_factories_getitem factories cls =
     (case map_of factories cls of None \<Rightarrow> Inl (ClassKeyError cls) | Some f \<Rightarrow> Inr f)"

definition AggregateFactory_create ::
  "('k \<Rightarrow> pyerror + ('a \<Rightarrow> pyerror + 'b)) \<Rightarrow> ('a \<Rightarrow> pyerror + 'k) \<Rightarrow> 'a \<Rightarrow> pyerror + 'b" where
  "AggregateFactory_create factories key x =
     pybind (key x) (\<lambda>k. pybind (factories k) (\<lambda>factory. factory x))"

definition AggregrateMessageFactory_create ::
  "(string \<times> (pod \<Rightarrow> pyerror + message)) list \<Rightarrow> pod \<Rightarrow> pyerror + message" where
  "AggregrateMessageFactory_create factory_classes pod =
     AggregateFactory_create (factories_getitem factory_classes)
       (\<lambda>pod. pod_getitem pod ''msg'') pod"

definition AggregratePodMessageFactory_create ::
  "(string \<times> (message \<Rightarrow> pyerror + pod)) list \<Rightarrow> message \<Rightarrow> pyerror + pod" where
  "AggregratePodMessageFactory_create factory_classes message =
     AggregateFactory_create (class_factories_getitem factory_classes)
       (\<lambda>message. Inr (type' message)) message"

definition ClientMessageFactory_create :: "pod \<Rightarrow> pyerror + message" where
  "ClientMessageFactory_create =
     AggregrateMessageFactory_create
       [(MSG_CONNECT, ConnectMessageFactory_create),
        (MSG_METHOD, MethodMessageFactory_create),
        (MSG_SUB, SubMessageFactory_create),
        (MSG_UNSUB, UnsubMessageFactory_create)]"

definition PodClientMessageFactory_create :: "message \<Rightarrow> pyerror + pod" where
  "PodClientMessageFactory_create =
     AggregratePodMessageFactory_create
       [(''ConnectMessage'', PodConnectMessageFactory_create),
        (''MethodMessage'', PodMethodMessageFactory_create),
        (''SubMessage'', PodSubMessageFactory_create),
        (''UnsubMessage'', PodUnsubMessageFactory_create)]"

definition ServerMessageFactory_create :: "pod \<Rightarrow> pyerror + message" where
  "ServerMessageFactory_create =
     AggregrateMessageFactory_create
       [(MSG_ADDED, AddedMessageFactory_create),
        (MSG_ADDED_BEFORE, AddedBeforeMessageFactory_create),
        (MSG_CONNECTED, ConnectedMessageFactory_create),
        (MSG_CHANGED, ChangedMessageFactory_create),
        (MSG_ERROR, ErrorMessageFactory_create),
        (MSG_FAILED, FailedMessageFactory_create),
        (MSG_MOVED_BEFORE, MovedBeforeMessageFactory_create),
        (MSG_NOSUB, NosubMessageFactory_create),
        (MSG_READY, ReadyMessageFactory_create),
        (MSG_REMOVED, RemoveMessageFactory_create),
        (MSG_RESULT, ResultMessageFactory_create),
        (MSG_UPDATED, UpdatedMessageFactory_create)]"

definition PodServerMessageFactroy_create :: "message \<Rightarrow> pyerror + pod" where
  "PodServerMessageFactroy_create =
     AggregratePodMessageFactory_create
       [(''AddedMessage'', PodAddedMessageFactory_create),
        (''AddedBeforeMessage'', PodAddedBeforeMessageFactory_create),
        (''ConnectedMessage'', PodConnectedMessageFactory_create),
        (''ChangedMessage'', PodChangedMessageFactory_create),
        (''ErrorMessage'', PodErrorMessageFactory_create),
        (''FailedMessage'', PodFailedMessageFactory_create),
        (''MovedBeforeMessage'', PodMovedBeforeMessageFactory_create),
        (''NosubMessage'', PodNosubMessageFactory_create),
        (''ReadyMessage'', PodReadyMessageFactory_create),
        (''RemovedMessage'', PodRemovedMessageFactory_create),
        (''ResultMessage'', PodResultMessageFactory_create),
        (''UpdatedMessage'', PodUpdatedMessageFactory_create)]"

section \<open>Message filters and the receiving path\<close>

definition PodClientMessageFilter_accept :: "pod \<Rightarrow> bool" where
  "PodClientMessageFilter_accept pod = True"

definition PodServerMessageFilter_accept :: "pod \<Rightarrow> bool" where
  "PodServerMessageFilter_accept pod = pod_contains ''msg'' pod"

text \<open>\<^verbatim>\<open>MessageWebSocketClient._received_message\<close>: the text of the frame is parsed
  (\<^verbatim>\<open>json.loads\<close>, a parameter here), filtered, decoded and handed to the callback.
  The result is the list of messages the callback was called with.\<close>

definition MessageWebSocketClient_received_message ::
  "(string \<Rightarrow> pyerror + pod) \<Rightarrow> string \<Rightarrow> pyerror + message list" where
  "MessageWebSocketClient_received_message parse text =
     pybind (parse text) (\<lambda>pod.
     if PodServerMessageFilter_accept pod
     then pybind (ServerMessageFactory_create pod) (\<lambda>message. Inr [message])
     else Inr [])"

section \<open>Equality of messages\<close>

text \<open>The instance dictionary of a message, and \<^verbatim>\<open>other._x\<close>.\<close>

fun attrs :: "message \<Rightarrow> (string \<times> pyval) list" where
  "attrs (ConnectMessage v s ss) = [(''_version'', v), (''_support'', s), (''_session'', ss)]"
| "attrs (MethodMessage i m p) = [(''_id'', i), (''_method'', m), (''_params'', p)]"
| "attrs (SubMessage i n p) = [(''_id'', i), (''_name'', n), (''_params'', p)]"
| "attrs (UnsubMessage i) = [(''_id'', i)]"
| "attrs (AddedMessage c i f) = [(''_collection'', c), (''_id'', i), (''_fields'', f)]"
| "attrs (AddedBeforeMessage c i b f) =
     [(''_collection'', c), (''_id'', i), (''_before'', b), (''_fields'', f)]"
| "attrs (ChangedMessage c i cl f) =
     [(''_collection'', c), (''_id'', i), (''_cleared'', cl), (''_fields'', f)]"
| "attrs (ConnectedMessage ss) = [(''_session'', ss)]"
| "attrs (ErrorMessage r p) = [(''_reason'', r), (''_offending_pod'', p)]"
| "attrs (FailedMessage v) = [(''_version'', v)]"
| "attrs (MovedBeforeMessage c i b) = [(''_collection'', c), (''_id'', i), (''_before'', b)]"
| "attrs (NosubMessage i e) = [(''_id'', i), (''_error'', e)]"
| "attrs (ReadyMessage s) = [(''_subs'', s)]"
| "attrs (RemovedMessage c i) = [(''_collection'', c), (''_id'', i)]"
| "attrs (ResultMessage i e r) = [(''_id'', i), (''_error'', e), (''_result'', r)]"
| "attrs (UpdatedMessage m) = [(''_methods'', m)]"

definition getattr :: "message \<Rightarrow> string \<Rightarrow> pyerror + pyval" where
  "getattr message attr =
     (case map_of (attrs message) attr of
        None \<Rightarrow> no_attribute message attr
      | Some v \<Rightarrow> Inr v)"

text \<open>\<^verbatim>\<open>a1 == b1 and a2 == b2 and ...\<close>, from left to right: reading \<open>b\<close> may
  raise, and the first comparison that is false ends the chain.\<close>

fun and_chain :: "(pyval \<times> (pyerror + pyval)) list \<Rightarrow> pyerror + bool" where
  "and_chain [] = Inr True"
| "and_chain ((a, b) # rest) =
     pybind b (\<lambda>b. if py_eq a b then and_chain rest else Inr False)"

text \<open>\<^verbatim>\<open>self == other\<close>, that is \<^verbatim>\<open>self.__eq__(other)\<close>.\<close>

fun message_eq :: "message \<Rightarrow> message \<Rightarrow> pyerror + bool" where
  "message_eq (ConnectMessage v s ss) other =
     and_chain [(v, version other), (s, getattr other ''_support''),
                (ss, getattr other ''_session'')]"
| "message_eq (MethodMessage i m p) other =
     and_chain [(i, getattr other ''_id''), (m, getattr other ''_method''),
                (p, getattr other ''_params'')]"
| "message_eq (SubMessage i n p) other =
     and_chain [(i, getattr other ''_id''), (n, getattr other ''_name''),
                (p, getattr other ''_params'')]"
| "message_eq (UnsubMessage i) other = and_chain [(i, getattr other ''_id'')]"
| "message_eq (AddedMessage c i f) other =
     and_chain [(c, getattr other ''_collection''), (i, getattr other ''_id''),
                (f, getattr other ''_fields'')]"
| "message_eq (AddedBeforeMessage c i b f) other =
     and_chain [(c, getattr other ''_collection''), (i, getattr other ''_id''),
                (b, before other), (f, getattr other ''_fields'')]"
| "message_eq (ChangedMessage c i cl f) other =
     and_chain [(c, getattr other ''_collection''), (i, getattr other ''_id''),
                (cl, getattr other ''_cleared''), (f, getattr other ''_fields'')]"
| "message_eq (ConnectedMessage ss) other = and_chain [(ss, getattr other ''_session'')]"
| "message_eq (ErrorMessage r p) other =
     and_chain [(r, getattr other ''_reason''), (p, getattr other ''_offending_pod'')]"
| "message_eq (FailedMessage v) other = and_chain [(v, getattr other ''_version'')]"
| "message_eq (MovedBeforeMessage c i b) other =
     and_chain [(c, getattr other ''_collection''), (i, getattr other ''_id''),
                (b, getattr other ''_before'')]"
| "message_eq (NosubMessage i e) other =
     and_chain [(i, getattr other ''_id''), (e, getattr other ''_error'')]"
| "message_eq (ReadyMessage s) other = and_chain [(s, getattr other ''_subs'')]"
| "message_eq (RemovedMessage c i) other =
     and_chain [(c, getattr other ''_collection''), (i, getattr other ''_id'')]"
| "message_eq (ResultMessage i e r) other =
     and_chain [(i, getattr other ''_id''), (e, getattr other ''_error''),
                (r, getattr other ''_result'')]"
| "message_eq (UpdatedMessage m) other = and_chain [(m, getattr other ''_methods'')]"

section \<open>What the constructors establish\<close>

text \<open>\<^verbatim>\<open>isinstance(message, ClientMessage)\<close>\<close>

fun is_client :: "message \<Rightarrow> bool" where
  "is_client (ConnectMessage _ _ _) = True"
| "is_client (MethodMessage _ _ _) = True"
| "is_client (SubMessage _ _ _) = True"
| "is_client (UnsubMessage _) = True"
| "is_client _ = False"

text \<open>The invariants of the two constructors that check or normalise their arguments:
  a connect message stores no support or a list that is not empty, a result message
  stores exactly one of error and result.\<close>

fun constructed :: "message \<Rightarrow> bool" where
  "constructed (ConnectMessage v s ss) =
     (case s of PNone \<Rightarrow> True | PList xs \<Rightarrow> xs \<noteq> [] | _ \<Rightarrow> False)"
| "constructed (ResultMessage i e r) = (nexists [e, r] = 1)"
| "constructed _ = True"

text \<open>No attribute of the message holds \<^verbatim>\<open>NaN\<close>.\<close>

definition message_nan_free :: "message \<Rightarrow> bool" where
  "message_nan_free message = list_all (\<lambda>kv. nan_free (snd kv)) (attrs message)"

text \<open>The stored support of a connect message does not hold the preferred version.\<close>

fun support_elided :: "message \<Rightarrow> bool" where
  "support_elided (ConnectMessage v (PList xs) ss) = (\<not> py_in v xs)"
| "support_elided _ = True"

section \<open>The fields of each kind of pod\<close>

text \<open>For each discriminant, the keys of the required fields and of the optional fields,
  in the order of the constructor's parameters.\<close>

definition pod_fields :: "(string \<times> string list \<times> string list) list" where
  "pod_fields =
     [(MSG_CONNECT, [''version''], [''support'', ''session'']),
      (MSG_METHOD, [''id'', ''method'', ''params''], []),
      (MSG_SUB, [''id'', ''name''], [''params'']),
      (MSG_UNSUB, [''id''], []),
      (MSG_ADDED, [''collection'', ''id''], [''fields'']),
      (MSG_ADDED_BEFORE, [''collection'', ''id'', ''before''], [''fields'']),
      (MSG_CHANGED, [''collection'', ''id''], [''cleared'', ''fields'']),
      (MSG_CONNECTED, [''session''], []),
      (MSG_ERROR, [''reason'', ''offendingMessage''], []),
      (MSG_FAILED, [''version''], []),
      (MSG_MOVED_BEFORE, [''collection'', ''id'', ''before''], []),
      (MSG_NOSUB, [''id''], [''error'']),
      (MSG_READY, [''subs''], []),
      (MSG_REMOVED, [''collection'', ''id''], []),
      (MSG_RESULT, [''id''], [''error'', ''result'']),
      (MSG_UPDATED, [''methods''], [])]"

definition client_kinds :: "string list" where
  "client_kinds = [MSG_CONNECT, MSG_METHOD, MSG_SUB, MSG_UNSUB]"

definition server_kinds :: "string list" where
  "server_kinds =
     [MSG_ADDED, MSG_ADDED_BEFORE, MSG_CONNECTED, MSG_CHANGED, MSG_ERROR, MSG_FAILED,
      MSG_MOVED_BEFORE, MSG_NOSUB, MSG_READY, MSG_REMOVED, MSG_RESULT, MSG_UPDATED]"

text \<open>What a kind asks of a pod beyond its keys: a connect pod's support is a list that
  is not empty and does not hold the version, a version without \<^verbatim>\<open>NaN\<close>; a result
  pod has exactly one of error and result.\<close>

definition kind_condition :: "string \<Rightarrow> pod \<Rightarrow> bool" where
  "kind_condition kind pod =
     (if kind = MSG_CONNECT then
        (case map_of pod ''support'' of
           None \<Rightarrow> True
         | Some (PList xs) \<Rightarrow>
             xs \<noteq> [] \<and> nan_free (pod_get pod ''version'')
             \<and> \<not> py_in (pod_get pod ''version'') xs
         | Some _ \<Rightarrow> False)
      else if kind = MSG_RESULT then
        pod_contains ''error'' pod \<noteq> pod_contains ''result'' pod
      else True)"

text \<open>A pod of the given kind in canonical form: distinct keys, the discriminant, every
  required key, no key beyond the kind's fields, no optional key that holds
  \<^verbatim>\<open>None\<close>, and the kind's own condition.\<close>

definition canonical_pod :: "string \<Rightarrow> pod \<Rightarrow> bool" where
  "canonical_pod kind pod =
     (case map_of pod_fields kind of
        None \<Rightarrow> False
      | Some (required, optional) \<Rightarrow>
          distinct (pod_keys pod)
          \<and> map_of pod ''msg'' = Some (PStr kind)
          \<and> list_all (\<lambda>k. pod_contains k pod) required
          \<and> list_all (\<lambda>k. k \<in> set (''msg'' # required @ optional)) (pod_keys pod)
          \<and> list_all (\<lambda>k. map_of pod k \<noteq> Some PNone) optional
          \<and> kind_condition kind pod)"



text \<open>Encoding with the pod factory of the message's family.\<close>

definition to_pod :: "message \<Rightarrow> pyerror + pod" where
  "to_pod message =
     (if is_client message then PodClientMessageFactory_create message
      else PodServerMessageFactroy_create message)"

section \<open>The changed message of the package\<close>

text \<open>\<^verbatim>\<open>ddp/message/server/changed_message.py\<close> defines the class a second time. Its
  properties \<^verbatim>\<open>cleared\<close> and \<^verbatim>\<open>fields\<close> return a copy of the attribute without
  asking whether the field is there, and \<^verbatim>\<open>has_cleared\<close> and \<^verbatim>\<open>has_fields\<close> call
  \<^verbatim>\<open>exists\<close>, a name the module neither defines nor imports.\<close>

datatype changed_message = Changed_message pyval pyval pyval pyval

definition changed_message_init ::
  "pyval \<Rightarrow> pyval \<Rightarrow> pyval \<Rightarrow> pyval \<Rightarrow> changed_message" where
  "changed_message_init collection' ident cleared' flds =
     Changed_message collection' ident (copy cleared') (copy flds)"

fun changed_message_cleared :: "changed_message \<Rightarrow> pyerror + pyval" where
  "changed_message_cleared (Changed_message c i cl f) = Inr (copy cl)"

fun changed_message_fields :: "changed_message \<Rightarrow> pyerror + pyval" where
  "changed_message_fields (Changed_message c i cl f) = Inr (copy f)"

fun changed_message_has_cleared :: "changed_message \<Rightarrow> pyerror + bool" where
  "changed_message_has_cleared (Changed_message c i cl f) = Inl (NameError ''exists'')"

fun changed_message_has_fields :: "changed_message \<Rightarrow> pyerror + bool" where
  "changed_message_has_fields (Changed_message c i cl f) = Inl (NameError ''exists'')"

section \<open>Defensive copies: messages on a store\<close>

text \<open>Lists and dictionaries are objects that can be changed in place, and two
  variables may hold the same one. Here a value is either immutable (\<open>Imm\<close>) or the
  address of a list or dictionary in the store; \<^verbatim>\<open>copy\<close> and \<^verbatim>\<open>list\<close> allocate a
  new object, \<^verbatim>\<open>append\<close> changes an object where it is.\<close>

datatype hval = Imm pyval | Ref nat

record store =
  objs :: "nat \<Rightarrow> pyval option"
  fresh :: nat

definition alloc :: "store \<Rightarrow> pyval \<Rightarrow> store \<times> hval" where
  "alloc st content =
     (st\<lparr>objs := (objs st)(fresh st \<mapsto> content), fresh := Suc (fresh st)\<rparr>, Ref (fresh st))"

text \<open>What a value looks like to a reader: the content of the object it refers to.\<close>

definition deref :: "store \<Rightarrow> hval \<Rightarrow> pyval option" where
  "deref st v = (case v of Imm x \<Rightarrow> Some x | Ref a \<Rightarrow> objs st a)"

definition copy_st :: "store \<Rightarrow> hval \<Rightarrow> store \<times> hval" where
  "copy_st st v =
     (case v of
        Imm x \<Rightarrow> (st, Imm x)
      | Ref a \<Rightarrow> (case objs st a of None \<Rightarrow> (st, Ref a) | Some content \<Rightarrow> alloc st content))"

definition list_append_st :: "store \<Rightarrow> hval \<Rightarrow> pyval \<Rightarrow> pyerror + store" where
  "list_append_st st v x =
     (case v of
        Ref a \<Rightarrow>
          (case objs st a of
             Some (PList xs) \<Rightarrow> Inr (st\<lparr>objs := (objs st)(a \<mapsto> PList (xs @ [x]))\<rparr>)
           | _ \<Rightarrow> Inl (AttributeError ''append''))
      | Imm _ \<Rightarrow> Inl (AttributeError ''append''))"

record sub_message =
  sub_id :: hval
  sub_name :: hval
  sub_params :: hval

definition SubMessage_init_st :: "store \<Rightarrow> hval \<Rightarrow> hval \<Rightarrow> hval \<Rightarrow> store \<times> sub_message" where
  "SubMessage_init_st st ident name' params' =
     (case copy_st st params' of
        (st', p) \<Rightarrow> (st', \<lparr>sub_id = ident, sub_name = name', sub_params = p\<rparr>))"

definition SubMessage_has_params_st :: "sub_message \<Rightarrow> bool" where
  "SubMessage_has_params_st self = (sub_params self \<noteq> Imm PNone)"

definition SubMessage_params_st :: "store \<Rightarrow> sub_message \<Rightarrow> pyerror + store \<times> hval" where
  "SubMessage_params_st st self =
     (if \<not> SubMessage_has_params_st self
      then Inl (AttributeError ''sub message has no `params` field'')
      else Inr (st, sub_params self))"

record method_message =
  method_id :: hval
  method_method :: hval
  method_params :: hval

definition MethodMessage_init_st ::
  "store \<Rightarrow> hval \<Rightarrow> hval \<Rightarrow> hval \<Rightarrow> store \<times> method_message" where
  "MethodMessage_init_st st ident meth params' =
     (case copy_st st params' of
        (st', p) \<Rightarrow> (st', \<lparr>method_id = ident, method_method = meth, method_params = p\<rparr>))"

definition MethodMessage_params_st :: "store \<Rightarrow> method_message \<Rightarrow> pyerror + store \<times> hval" where
  "MethodMessage_params_st st self = Inr (copy_st st (method_params self))"

record connect_message =
  connect_version :: hval
  connect_support :: hval
  connect_session :: hval

text \<open>\<^verbatim>\<open>list(support)\<close> builds a new list from the items of the argument; the items of
  the lists here are immutable values, the version among them.\<close>

definition ConnectMessage_init_st ::
  "store \<Rightarrow> pyval \<Rightarrow> hval \<Rightarrow> hval \<Rightarrow> pyerror + store \<times> connect_message" where
  "ConnectMessage_init_st st version' support' session' =
     pybind
       (if support' \<noteq> Imm PNone then
          pybind (case deref st support' of
                    None \<Rightarrow> Inl (TypeError ''object is not iterable'')
                  | Some content \<Rightarrow> py_list content) (\<lambda>items.
          pybind (if py_in version' items then list_remove items version'
                  else Inr items) (\<lambda>items.
          Inr (if items = [] then (st, Imm PNone) else alloc st (PList items))))
        else Inr (st, support'))
       (\<lambda>(st', s). Inr (st', \<lparr>connect_version = Imm version', connect_support = s,
                               connect_session = session'\<rparr>))"

definition ConnectMessage_has_support_st :: "connect_message \<Rightarrow> bool" where
  "ConnectMessage_has_support_st self = (connect_support self \<noteq> Imm PNone)"

definition ConnectMessage_support_st ::
  "store \<Rightarrow> connect_message \<Rightarrow> pyerror + store \<times> hval" where
  "ConnectMessage_support_st st self =
     (if \<not> ConnectMessage_has_support_st self
      then Inl (AttributeError ''connect message has no `support` field'')
      else Inr (st, connect_support self))"

section \<open>Future\<close>

text \<open>\<^verbatim>\<open>Future.get\<close> waits on the condition in a loop until the future is set.
  Between two tests of \<^verbatim>\<open>_is_set\<close> the thread sleeps in \<^verbatim>\<open>self._cond.wait(timeout)\<close>,
  and other threads may call \<^verbatim>\<open>set\<close>: \<open>wait timeout n self\<close> is the future as the
  \<open>n\<close>-th call of \<^verbatim>\<open>wait\<close> leaves it when it returns. \<^verbatim>\<open>set\<close> notifies nobody, so
  a call of \<^verbatim>\<open>wait\<close> returns when \<open>timeout\<close> has elapsed, and with no timeout it
  does not return. A loop that never ends is the result \<open>None\<close>.\<close>

record future =
  fvalue :: pyval
  is_set :: bool

definition Future_init :: future where
  "Future_init = \<lparr>fvalue = PNone, is_set = False\<rparr>"

definition Future_set :: "future \<Rightarrow> pyval \<Rightarrow> future" where
  "Future_set self v = self\<lparr>fvalue := v, is_set := True\<rparr>"

partial_function (option) Future_get ::
  "(pyval \<Rightarrow> nat \<Rightarrow> future \<Rightarrow> future) \<Rightarrow> pyval \<Rightarrow> nat \<Rightarrow> future \<Rightarrow> pyval option" where
  "Future_get wait timeout n self =
     (if \<not> is_set self then Future_get wait timeout (Suc n) (wait timeout n self)
      else Some (fvalue self))"

section \<open>DdpConnection\<close>

text \<open>What the methods of \<^verbatim>\<open>DdpConnection\<close> do depends on which names and
  attributes are bound. An object is its instance dictionary and the name of its class;
  a name is looked up among the local variables of the function, then among the globals
  of the module, then among the builtins. A method of the socket is not run here: the
  call is the result, with the object, the name of the method and the arguments.\<close>

datatype pyobj =
    Value pyval
  | Message message
  | Global string
  | Builtin string
  | Bound_method string string
  | Instance string "(string \<times> pyobj) list"

datatype effect = Call pyobj string "pyobj list"

definition module_globals :: "string list" where
  "module_globals =
     [''absolute_import'', ''division'', ''print_function'', ''contextmanager'', ''copy'',
      ''urlunparse'', ''json'', ''time'', ''threading'', ''WebSocketClient'',
      ''exists'', ''nexists'', ''Message'', ''ClientMessage'', ''ConnectMessage'',
      ''MethodMessage'', ''SubMessage'', ''UnsubMessage'', ''ServerMessage'',
      ''AddedMessage'', ''AddedBeforeMessage'', ''ChangedMessage'', ''ConnectedMessage'',
      ''ErrorMessage'', ''FailedMessage'', ''MovedBeforeMessage'', ''NosubMessage'',
      ''ReadyMessage'', ''RemovedMessage'', ''ResultMessage'', ''UpdatedMessage'',
      ''MSG_CONNECT'', ''MSG_METHOD'', ''MSG_SUB'', ''MSG_UNSUB'', ''MSG_ADDED'',
      ''MSG_ADDED_BEFORE'', ''MSG_CHANGED'', ''MSG_CONNECTED'', ''MSG_ERROR'',
      ''MSG_FAILED'', ''MSG_MOVED_BEFORE'', ''MSG_NOSUB'', ''MSG_READY'', ''MSG_REMOVED'',
      ''MSG_RESULT'', ''MSG_UPDATED'', ''AggregateFactory'', ''AggregrateMessageFactory'',
      ''AggregratePodMessageFactory'', ''ConnectMessageFactory'',
      ''PodConnectMessageFactory'', ''MethodMessageFactory'', ''PodMethodMessageFactory'',
      ''SubMessageFactory'', ''PodSubMessageFactory'', ''UnsubMessageFactory'',
      ''PodUnsubMessageFactory'', ''ClientMessageFactory'', ''PodClientMessageFactory'',
      ''AddedMessageFactory'', ''PodAddedMessageFactory'', ''AddedBeforeMessageFactory'',
      ''PodAddedBeforeMessageFactory'', ''ChangedMessageFactory'',
      ''PodChangedMessageFactory'', ''ConnectedMessageFactory'',
      ''PodConnectedMessageFactory'', ''ErrorMessageFactory'', ''PodErrorMessageFactory'',
      ''FailedMessageFactory'', ''PodFailedMessageFactory'', ''MovedBeforeMessageFactory'',
      ''PodMovedBeforeMessageFactory'', ''NosubMessageFactory'', ''PodNosubMessageFactory'',
      ''ReadyMessageFactory'', ''PodReadyMessageFactory'', ''RemoveMessageFactory'',
      ''PodRemovedMessageFactory'', ''ResultMessageFactory'', ''PodResultMessageFactory'',
      ''UpdatedMessageFactory'', ''PodUpdatedMessageFactory'', ''ServerMessageFactory'',
      ''PodServerMessageFactroy'', ''MessageFilter'', ''PodClientMessageFilter'',
      ''PodServerMessageFilter'', ''PodMessageParser'', ''PodMessageSerializer'',
      ''_StrategyWebSocketClient'', ''StrategyWebSocketClient'', ''ManagedWebSocketClient'',
      ''WebSocketClientManager'', ''ServerUrl'', ''MessageWebSocketClient'',
      ''DdpConnection'', ''Timeout'', ''Future'']"

text \<open>The builtin functions and constants of Python 2.\<close>

definition builtins :: "string list" where
  "builtins =
     [''abs'', ''all'', ''any'', ''apply'', ''basestring'', ''bin'', ''bool'', ''buffer'',
      ''bytearray'', ''bytes'', ''callable'', ''chr'', ''classmethod'', ''cmp'', ''coerce'',
      ''compile'', ''complex'', ''delattr'', ''dict'', ''dir'', ''divmod'', ''enumerate'',
      ''eval'', ''execfile'', ''file'', ''filter'', ''float'', ''format'', ''frozenset'',
      ''getattr'', ''globals'', ''hasattr'', ''hash'', ''help'', ''hex'', ''id'', ''input'',
      ''int'', ''intern'', ''isinstance'', ''issubclass'', ''iter'', ''len'', ''list'',
      ''locals'', ''long'', ''map'', ''max'', ''memoryview'', ''min'', ''next'', ''object'',
      ''oct'', ''open'', ''ord'', ''pow'', ''print'', ''property'', ''range'', ''raw_input'',
      ''reduce'', ''reload'', ''repr'', ''reversed'', ''round'', ''set'', ''setattr'',
      ''slice'', ''sorted'', ''staticmethod'', ''str'', ''sum'', ''super'', ''tuple'',
      ''type'', ''unichr'', ''unicode'', ''vars'', ''xrange'', ''zip'', ''__import__'',
      ''True'', ''False'', ''None'', ''NotImplemented'', ''Ellipsis'', ''__debug__'']"

definition load_name :: "(string \<times> pyobj) list \<Rightarrow> string \<Rightarrow> pyerror + pyobj" where
  "load_name locals nm =
     (case map_of locals nm of
        Some v \<Rightarrow> Inr v
      | None \<Rightarrow>
          if nm \<in> set module_globals then Inr (Global nm)
          else if nm \<in> set builtins then Inr (Builtin nm)
          else Inl (NameError nm))"

text \<open>The methods the class \<^verbatim>\<open>DdpConnection\<close> defines, and \<^verbatim>\<open>self.attr\<close>: the
  instance dictionary first, then the class.\<close>

definition DdpConnection_methods :: "string list" where
  "DdpConnection_methods =
     [''__init__'', ''_opened'', ''_received_message'', ''connect'', ''send'', ''close'']"

definition load_attr :: "(string \<times> pyobj) list \<Rightarrow> string \<Rightarrow> pyerror + pyobj" where
  "load_attr self attr =
     (case map_of self attr of
        Some v \<Rightarrow> Inr v
      | None \<Rightarrow>
          if attr \<in> set DdpConnection_methods then Inr (Bound_method ''DdpConnection'' attr)
          else Inl (AttributeError attr))"

text \<open>\<^verbatim>\<open>self.attr = v\<close>\<close>

fun setattr :: "(string \<times> pyobj) list \<Rightarrow> string \<Rightarrow> pyobj \<Rightarrow> (string \<times> pyobj) list" where
  "setattr [] attr v = [(attr, v)]"
| "setattr (kw # self) attr v =
     (if fst kw = attr then (attr, v) # self else kw # setattr self attr v)"

text \<open>Every method takes the instance dictionary and returns it as the method leaves it,
  with what the method returned or raised.

  \<^verbatim>\<open>DdpConnection.__init__\<close>: the attribute \<^verbatim>\<open>_connect_message\<close> is assigned, then
  the arguments of the call of \<^verbatim>\<open>MessageWebSocketClient\<close> are read from left to right,
  and the socket it returns is assigned to \<^verbatim>\<open>_socket\<close>.\<close>

definition DdpConnection_init_body ::
  "(string \<times> pyobj) list \<Rightarrow> pyobj \<Rightarrow> pyobj \<Rightarrow> pyobj \<Rightarrow> pyobj \<Rightarrow> pyobj
     \<Rightarrow> (string \<times> pyobj) list \<times> (pyerror + unit)" where
  "DdpConnection_init_body self0 url connect_message on_connected on_disconnected on_failed =
     (let locals = [(''url'', url), (''connect_message'', connect_message),
                    (''on_connected'', on_connected),
                    (''on_disconnected'', on_disconnected), (''on_failed'', on_failed)]
      in
      case load_name locals ''connect_message'' of
        Inl e \<Rightarrow> (self0, Inl e)
      | Inr cm \<Rightarrow>
          (let self = setattr self0 ''_connect_message'' cm in
           case
             pybind (load_name locals ''MessageWebSocketClient'') (\<lambda>cls.
             pybind (load_name locals ''url'') (\<lambda>u.
             pybind (load_attr self ''_opened'') (\<lambda>opened_callback.
             pybind (load_attr self ''_received_message'') (\<lambda>received_message_callback.
             pybind (load_name locals ''closed_callback'') (\<lambda>closed_callback.
             Inr (Instance ''MessageWebSocketClient''
                    [(''url'', u), (''opened_callback'', opened_callback),
                     (''received_message_callback'', received_message_callback),
                     (''closed_callback'', closed_callback)]))))))
           of
             Inl e \<Rightarrow> (self, Inl e)
           | Inr socket \<Rightarrow> (setattr self ''_socket'' socket, Inr ())))"

text \<open>\<^verbatim>\<open>DdpConnection(url, connect_message, ...)\<close>: a new object, with an empty instance
  dictionary, on which \<^verbatim>\<open>__init__\<close> runs; the object is returned when \<^verbatim>\<open>__init__\<close>
  raises nothing.\<close>

definition DdpConnection_init ::
  "pyobj \<Rightarrow> pyobj \<Rightarrow> pyobj \<Rightarrow> pyobj \<Rightarrow> pyobj \<Rightarrow> pyerror + (string \<times> pyobj) list" where
  "DdpConnection_init url connect_message on_connected on_disconnected on_failed =
     (case DdpConnection_init_body [] url connect_message on_connected on_disconnected
             on_failed of
        (self, r) \<Rightarrow> pybind r (\<lambda>u. Inr self))"

definition DdpConnection_opened ::
  "(string \<times> pyobj) list \<Rightarrow> (string \<times> pyobj) list \<times> (pyerror + effect)" where
  "DdpConnection_opened self =
     (self,
      pybind (load_attr self ''_connect_message'') (\<lambda>msg.
      pybind (load_attr self ''_socket'') (\<lambda>socket.
      Inr (Call socket ''send'' [msg]))))"

definition DdpConnection_received_message ::
  "(string \<times> pyobj) list \<Rightarrow> message \<Rightarrow> (string \<times> pyobj) list \<times> (pyerror + effect)" where
  "DdpConnection_received_message self message =
     (self,
      pybind (load_attr self ''_received_message_callback'') (\<lambda>callback.
      Inr (Call callback ''__call__'' [Message message])))"

definition DdpConnection_connect ::
  "(string \<times> pyobj) list \<Rightarrow> (string \<times> pyobj) list \<times> (pyerror + effect)" where
  "DdpConnection_connect self =
     (self, pybind (load_attr self ''_socket'') (\<lambda>socket. Inr (Call socket ''connect'' [])))"

definition DdpConnection_send ::
  "(string \<times> pyobj) list \<Rightarrow> message \<Rightarrow> (string \<times> pyobj) list \<times> (pyerror + effect)" where
  "DdpConnection_send self message =
     (self,
      pybind (load_attr self ''_socket'') (\<lambda>socket.
      Inr (Call socket ''send'' [Message message])))"

definition DdpConnection_close ::
  "(string \<times> pyobj) list \<Rightarrow> (string \<times> pyobj) list \<times> (pyerror + effect)" where
  "DdpConnection_close self =
     (self, pybind (load_attr self ''_socket'') (\<lambda>socket. Inr (Call socket ''close'' [])))"

text \<open>The life of an object of the class: after \<^verbatim>\<open>__new__\<close> its instance dictionary is
  empty, and then the methods of the class run on it, in any order and with any
  arguments. \<open>after_calls\<close> is the instance dictionary they leave.\<close>

datatype method_call =
    Call_init pyobj pyobj pyobj pyobj pyobj
  | Call_opened
  | Call_received_message message
  | Call_connect
  | Call_send message
  | Call_close

fun after_call :: "(string \<times> pyobj) list \<Rightarrow> method_call \<Rightarrow> (string \<times> pyobj) list" where
  "after_call self (Call_init url connect_message on_connected on_disconnected on_failed) =
     fst (DdpConnection_init_body self url connect_message on_connected on_disconnected
            on_failed)"
| "after_call self Call_opened = fst (DdpConnection_opened self)"
| "after_call self (Call_received_message message) =
     fst (DdpConnection_received_message self message)"
| "after_call self Call_connect = fst (DdpConnection_connect self)"
| "after_call self (Call_send message) = fst (DdpConnection_send self message)"
| "after_call self Call_close = fst (DdpConnection_close self)"

definition after_calls :: "method_call list \<Rightarrow> (string \<times> pyobj) list" where
  "after_calls calls = foldl after_call [] calls"

section \<open>Basic facts\<close>

lemma pybind_Inl [simp]: "pybind (Inl e) f = Inl e"
  by (simp add: pybind_def)

lemma pybind_Inr [simp]: "pybind (Inr x) f = f x"
  by (simp add: pybind_def)

lemma pybind_eq_Inr: "pybind r f = Inr y \<longleftrightarrow> (\<exists>x. r = Inr x \<and> f x = Inr y)"
  by (cases r) simp_all

lemma if_has_simps [simp]:
  "if_has (Inr True) (Inr v) pod k = Inr (pod_setitem pod k v)"
  "if_has (Inr False) x pod k = Inr pod"
  "if_has (Inl e) x pod k = Inl e"
  by (simp_all add: if_has_def)

lemma nexists_pair:
  "nexists [e, r] = (if e = PNone then 0 else 1) + (if r = PNone then 0 else 1)"
  by (simp add: nexists_def exists_def)

lemma float_eq_left_refl: "float_eq x y \<Longrightarrow> float_eq x x"
  by (cases x; cases y) simp_all

lemma float_eq_right_refl: "float_eq x y \<Longrightarrow> float_eq y y"
  by (cases x; cases y) simp_all

lemma float_eq_refl: "x \<noteq> NaN \<Longrightarrow> float_eq x x"
  by (cases x) simp_all

lemma py_eq_refl: "nan_free v \<Longrightarrow> py_eq v v"
proof (induction v)
  case (PList xs)
  then show ?case
    by (simp add: list_all2_same list_all_iff)
next
  case (PDict kvs)
  have "py_eq (snd kv) (snd kv)" if "kv \<in> set kvs" for kv
    using PDict that by (cases kv) (auto simp: list_all_iff)
  then show ?case
    by (auto simp: list_all_iff list_ex_iff)
qed (simp_all add: float_eq_refl)

lemma py_eq_left_refl: "py_eq v x \<Longrightarrow> py_eq v v"
proof (induction v x rule: py_eq.induct)
  case (12 xs ys)
  from 12(2) have len: "length xs = length ys"
    and nth: "\<forall>i<length xs. py_eq (xs ! i) (ys ! i)"
    by (simp_all add: list_all2_conv_all_nth)
  have "py_eq (xs ! i) (xs ! i)" if "i < length xs" for i
    using 12(1) [of "xs ! i" "ys ! i"] that len nth by simp
  then show ?case
    by (simp add: list_all2_conv_all_nth)
next
  case (13 a b)
  have "py_eq (snd kv) (snd kv)" if "kv \<in> set a" for kv
  proof -
    from 13(2) that obtain kw
      where "kw \<in> set b" "fst kv = fst kw" "py_eq (snd kv) (snd kw)"
      by (auto simp: list_all_iff list_ex_iff)
    with 13(1) [of kv kw] that show ?thesis
      by simp
  qed
  then show ?case
    by (auto simp: list_all_iff list_ex_iff)
qed (auto intro: float_eq_left_refl float_eq_right_refl split: if_splits)

lemma message_eq_refl: "message_nan_free m \<Longrightarrow> message_eq m m = Inr True"
  by (cases m) (simp_all add: message_nan_free_def getattr_def py_eq_refl)

lemmas server_router_defs =
  ServerMessageFactory_create_def PodServerMessageFactroy_create_def
  AggregrateMessageFactory_create_def AggregratePodMessageFactory_create_def
  AggregateFactory_create_def class_factories_getitem_def

lemmas client_router_defs =
  ClientMessageFactory_create_def PodClientMessageFactory_create_def
  AggregrateMessageFactory_create_def AggregratePodMessageFactory_create_def
  AggregateFactory_create_def class_factories_getitem_def

section \<open>Result messages\<close>

text \<open>
  C2, as the claim states it, fails where it says that every successful construction
  round-trips. \<^verbatim>\<open>ResultMessage('1', result=NaN)\<close> is constructed, it is encoded and the
  pod is decoded to a message with the same fields, but that message is not \<^verbatim>\<open>==\<close> to
  the one constructed: \<^verbatim>\<open>__eq__\<close> compares the results with \<^verbatim>\<open>==\<close>, and \<^verbatim>\<open>NaN\<close> is
  not equal to itself.
\<close>

theorem Result_roundtrip_counterexample:
  "ResultMessage_init (PStr ''1'') PNone (PFloat NaN)
     = Inr (ResultMessage (PStr ''1'') PNone (PFloat NaN))
   \<and> PodServerMessageFactroy_create (ResultMessage (PStr ''1'') PNone (PFloat NaN))
     = Inr [(''msg'', PStr ''result''), (''id'', PStr ''1''), (''result'', PFloat NaN)]
   \<and> ServerMessageFactory_create
        [(''msg'', PStr ''result''), (''id'', PStr ''1''), (''result'', PFloat NaN)]
     = Inr (ResultMessage (PStr ''1'') PNone (PFloat NaN))
   \<and> message_eq (ResultMessage (PStr ''1'') PNone (PFloat NaN))
        (ResultMessage (PStr ''1'') PNone (PFloat NaN))
     = Inr False"
  by (simp add: server_router_defs PodResultMessageFactory_create_def
        ResultMessageFactory_create_def ResultMessage_init_def nexists_pair
        pod_getitem_def pod_get_def getattr_def)

text \<open>
  C2, amended. \<^verbatim>\<open>ResultMessage(id_, error, result)\<close> with both \<^verbatim>\<open>error\<close> and
  \<^verbatim>\<open>result\<close> given, or with neither, raises ValueError. With exactly one of them given
  it returns the message that holds this id, error and result; the server pod factory
  encodes it with the discriminant, the id and the one of error and result that is
  there, and the server message factory decodes that pod to a message with the same
  fields. When id, error and result hold no \<^verbatim>\<open>NaN\<close>, the decoded message is \<^verbatim>\<open>==\<close> to
  the constructed one.
\<close>

theorem Result_exactly_one:
  "((e \<noteq> PNone \<and> r \<noteq> PNone) \<or> (e = PNone \<and> r = PNone) \<longrightarrow>
      ResultMessage_init i e r = Inl (ValueError ''either error or result must be given''))
   \<and> ((e \<noteq> PNone) \<noteq> (r \<noteq> PNone) \<longrightarrow>
      ResultMessage_init i e r = Inr (ResultMessage i e r)
      \<and> PodServerMessageFactroy_create (ResultMessage i e r)
          = Inr ([(''msg'', PStr ''result''), (''id'', i)]
                 @ (if e \<noteq> PNone then [(''error'', e)] else [])
                 @ (if r \<noteq> PNone then [(''result'', r)] else []))
      \<and> ServerMessageFactory_create
            ([(''msg'', PStr ''result''), (''id'', i)]
             @ (if e \<noteq> PNone then [(''error'', e)] else [])
             @ (if r \<noteq> PNone then [(''result'', r)] else []))
          = Inr (ResultMessage i e r)
      \<and> (nan_free i \<and> nan_free e \<and> nan_free r \<longrightarrow>
           message_eq (ResultMessage i e r) (ResultMessage i e r) = Inr True))"
proof (intro conjI impI)
  assume "(e \<noteq> PNone \<and> r \<noteq> PNone) \<or> (e = PNone \<and> r = PNone)"
  then show "ResultMessage_init i e r = Inl (ValueError ''either error or result must be given'')"
    by (auto simp: ResultMessage_init_def nexists_pair)
next
  assume one: "(e \<noteq> PNone) \<noteq> (r \<noteq> PNone)"
  then show "ResultMessage_init i e r = Inr (ResultMessage i e r)"
    by (auto simp: ResultMessage_init_def nexists_pair)
next
  assume one: "(e \<noteq> PNone) \<noteq> (r \<noteq> PNone)"
  then show "PodServerMessageFactroy_create (ResultMessage i e r)
          = Inr ([(''msg'', PStr ''result''), (''id'', i)]
                 @ (if e \<noteq> PNone then [(''error'', e)] else [])
                 @ (if r \<noteq> PNone then [(''result'', r)] else []))"
    by (cases "e = PNone"; cases "r = PNone")
       (simp_all add: server_router_defs PodResultMessageFactory_create_def)
next
  assume one: "(e \<noteq> PNone) \<noteq> (r \<noteq> PNone)"
  then show "ServerMessageFactory_create
            ([(''msg'', PStr ''result''), (''id'', i)]
             @ (if e \<noteq> PNone then [(''error'', e)] else [])
             @ (if r \<noteq> PNone then [(''result'', r)] else []))
          = Inr (ResultMessage i e r)"
    by (cases "e = PNone"; cases "r = PNone")
       (simp_all add: server_router_defs ResultMessageFactory_create_def
          ResultMessage_init_def nexists_pair pod_getitem_def pod_get_def)
next
  assume "nan_free i \<and> nan_free e \<and> nan_free r"
  then show "message_eq (ResultMessage i e r) (ResultMessage i e r) = Inr True"
    using message_eq_refl [of "ResultMessage i e r"] by (simp add: message_nan_free_def)
qed

theorem Result_exactly_one_witness:
  "ResultMessage_init (PStr ''1'') (PStr ''boom'') (PInt 7)
     = Inl (ValueError ''either error or result must be given'')
   \<and> ResultMessage_init (PStr ''1'') PNone PNone
     = Inl (ValueError ''either error or result must be given'')
   \<and> ResultMessage_init (PStr ''1'') PNone (PInt 7)
     = Inr (ResultMessage (PStr ''1'') PNone (PInt 7))
   \<and> ServerMessageFactory_create
        [(''msg'', PStr ''result''), (''id'', PStr ''1''), (''result'', PInt 7)]
     = Inr (ResultMessage (PStr ''1'') PNone (PInt 7))
   \<and> message_eq (ResultMessage (PStr ''1'') PNone (PInt 7))
        (ResultMessage (PStr ''1'') PNone (PInt 7)) = Inr True
   \<and> ResultMessage_init (PStr ''1'') (PStr ''boom'') PNone
     = Inr (ResultMessage (PStr ''1'') (PStr ''boom'') PNone)
   \<and> ServerMessageFactory_create
        [(''msg'', PStr ''result''), (''id'', PStr ''1''), (''error'', PStr ''boom'')]
     = Inr (ResultMessage (PStr ''1'') (PStr ''boom'') PNone)"
  using Result_exactly_one [of "PStr ''boom''" "PInt 7" "PStr ''1''"]
    Result_exactly_one [of PNone PNone "PStr ''1''"]
    Result_exactly_one [of PNone "PInt 7" "PStr ''1''"]
    Result_exactly_one [of "PStr ''boom''" PNone "PStr ''1''"]
  by simp

section \<open>The server-message filter\<close>

lemma pod_getitem_absent:
  "\<not> pod_contains k pod \<Longrightarrow> pod_getitem pod k = Inl (KeyError (PStr k))"
  by (simp add: pod_getitem_def pod_contains_def map_of_eq_None_iff [THEN iffD2])

lemma pod_getitem_present:
  "pod_contains k pod \<Longrightarrow> pod_getitem pod k = Inr (pod_get pod k)"
  by (auto simp: pod_getitem_def pod_get_def pod_contains_def map_of_eq_None_iff
      split: option.splits)

lemma pod_getitem_Some: "map_of pod k = Some v \<Longrightarrow> pod_getitem pod k = Inr v"
  by (simp add: pod_getitem_def)

lemma pod_contains_Some: "map_of pod k = Some v \<Longrightarrow> pod_contains k pod"
  by (auto simp: pod_contains_def dest: map_of_SomeD intro: rev_image_eqI)

lemma server_router_no_discriminant:
  "\<not> pod_contains ''msg'' pod \<Longrightarrow>
     ServerMessageFactory_create pod = Inl (KeyError (PStr ''msg''))"
  by (simp add: server_router_defs pod_getitem_absent)

text \<open>
  C9. The server-message filter accepts a pod exactly when the pod has the key
  \<^verbatim>\<open>msg\<close>. A parsed pod without the key is dropped: nothing is delivered and the
  router, which would raise on it, is not called. An accepted pod goes to the router,
  and what the router returns is delivered. Every message delivered to the callback was
  decoded by the router from an accepted pod.
\<close>

theorem server_filter:
  "(PodServerMessageFilter_accept pod \<longleftrightarrow> ''msg'' \<in> set (pod_keys pod))
   \<and> (parse text = Inr pod \<and> \<not> PodServerMessageFilter_accept pod \<longrightarrow>
        MessageWebSocketClient_received_message parse text = Inr []
        \<and> ServerMessageFactory_create pod = Inl (KeyError (PStr ''msg'')))
   \<and> (parse text = Inr pod \<and> PodServerMessageFilter_accept pod \<longrightarrow>
        MessageWebSocketClient_received_message parse text
          = pybind (ServerMessageFactory_create pod) (\<lambda>message. Inr [message]))
   \<and> (MessageWebSocketClient_received_message parse text = Inr delivered
        \<and> m \<in> set delivered \<longrightarrow>
        (\<exists>pod. parse text = Inr pod \<and> PodServerMessageFilter_accept pod
           \<and> ServerMessageFactory_create pod = Inr m \<and> delivered = [m]))"
  by (auto simp: PodServerMessageFilter_accept_def pod_keys_def
        MessageWebSocketClient_received_message_def pybind_eq_Inr
        server_router_no_discriminant
      simp: pod_contains_def split: if_splits)

theorem server_filter_witness:
  "MessageWebSocketClient_received_message (\<lambda>t. Inr [(''server_id'', PStr ''0'')]) ''x''
      = Inr []
   \<and> MessageWebSocketClient_received_message
        (\<lambda>t. Inr [(''msg'', PStr ''ready''), (''subs'', PList [PStr ''1''])]) ''x''
      = Inr [ReadyMessage (PList [PStr ''1''])]"
  using server_filter [of "[(''server_id'', PStr ''0'')]"
       "\<lambda>t. Inr [(''server_id'', PStr ''0'')]" "''x''" "[]"
       "ReadyMessage (PList [PStr ''1''])"]
    server_filter [of "[(''msg'', PStr ''ready''), (''subs'', PList [PStr ''1''])]"
       "\<lambda>t. Inr [(''msg'', PStr ''ready''), (''subs'', PList [PStr ''1''])]" "''x''"
       "[ReadyMessage (PList [PStr ''1''])]" "ReadyMessage (PList [PStr ''1''])"]
  by (simp add: pod_keys_def server_router_defs pod_getitem_def
        ReadyMessageFactory_create_def ReadyMessage_init_def copy_def
        PodServerMessageFilter_accept_def pod_contains_def)

section \<open>Errors of the routers and decoders\<close>

lemma factories_getitem_unregistered:
  "\<forall>k \<in> set (map fst fs). key \<noteq> PStr k \<Longrightarrow>
   factories_getitem fs key =
     Inl (case key of PList _ \<Rightarrow> TypeError ''unhashable type: list''
      | PDict _ \<Rightarrow> TypeError ''unhashable type: dict'' | _ \<Rightarrow> KeyError key)"
  by (cases key) (auto simp: map_of_eq_None_iff split: option.splits)

lemma server_unregistered:
  assumes "map_of pod ''msg'' = Some key" "\<forall>k \<in> set server_kinds. key \<noteq> PStr k"
  shows "ServerMessageFactory_create pod =
     Inl (case key of PList _ \<Rightarrow> TypeError ''unhashable type: list''
      | PDict _ \<Rightarrow> TypeError ''unhashable type: dict'' | _ \<Rightarrow> KeyError key)"
proof -
  have "factories_getitem
          [(MSG_ADDED, AddedMessageFactory_create),
        (MSG_ADDED_BEFORE, AddedBeforeMessageFactory_create),
        (MSG_CONNECTED, ConnectedMessageFactory_create),
        (MSG_CHANGED, ChangedMessageFactory_create),
        (MSG_ERROR, ErrorMessageFactory_create),
        (MSG_FAILED, FailedMessageFactory_create),
        (MSG_MOVED_BEFORE, MovedBeforeMessageFactory_create),
        (MSG_NOSUB, NosubMessageFactory_create),
        (MSG_READY, ReadyMessageFactory_create),
        (MSG_REMOVED, RemoveMessageFactory_create),
        (MSG_RESULT, ResultMessageFactory_create),
        (MSG_UPDATED, UpdatedMessageFactory_create)] key =
     Inl (case key of PList _ \<Rightarrow> TypeError ''unhashable type: list''
      | PDict _ \<Rightarrow> TypeError ''unhashable type: dict'' | _ \<Rightarrow> KeyError key)"
    using assms(2) by (intro factories_getitem_unregistered) (simp add: server_kinds_def)
  then show ?thesis
    using assms(1)
    by (simp add: ServerMessageFactory_create_def AggregrateMessageFactory_create_def
        AggregateFactory_create_def pod_getitem_Some)
qed

lemma client_unregistered:
  assumes "map_of pod ''msg'' = Some key" "\<forall>k \<in> set client_kinds. key \<noteq> PStr k"
  shows "ClientMessageFactory_create pod =
     Inl (case key of PList _ \<Rightarrow> TypeError ''unhashable type: list''
      | PDict _ \<Rightarrow> TypeError ''unhashable type: dict'' | _ \<Rightarrow> KeyError key)"
proof -
  have "factories_getitem
       [(MSG_CONNECT, ConnectMessageFactory_create),
        (MSG_METHOD, MethodMessageFactory_create),
        (MSG_SUB, SubMessageFactory_create),
        (MSG_UNSUB, UnsubMessageFactory_create)] key =
     Inl (case key of PList _ \<Rightarrow> TypeError ''unhashable type: list''
      | PDict _ \<Rightarrow> TypeError ''unhashable type: dict'' | _ \<Rightarrow> KeyError key)"
    using assms(2) by (intro factories_getitem_unregistered) (simp add: client_kinds_def)
  then show ?thesis
    using assms(1)
    by (simp add: ClientMessageFactory_create_def AggregrateMessageFactory_create_def
        AggregateFactory_create_def pod_getitem_Some)
qed

lemma no_encoder:
  "(\<not> is_client m \<longrightarrow> PodClientMessageFactory_create m = Inl (ClassKeyError (type' m)))
 \<and> (is_client m \<longrightarrow> PodServerMessageFactroy_create m = Inl (ClassKeyError (type' m)))"
  by (cases m) (simp_all add: client_router_defs server_router_defs)

lemmas decoder_defs =
  ConnectMessageFactory_create_def MethodMessageFactory_create_def
  SubMessageFactory_create_def UnsubMessageFactory_create_def
  AddedMessageFactory_create_def AddedBeforeMessageFactory_create_def
  ChangedMessageFactory_create_def ConnectedMessageFactory_create_def
  ErrorMessageFactory_create_def FailedMessageFactory_create_def
  MovedBeforeMessageFactory_create_def NosubMessageFactory_create_def
  ReadyMessageFactory_create_def RemoveMessageFactory_create_def
  ResultMessageFactory_create_def UpdatedMessageFactory_create_def

lemma missing_client:
  assumes "map_of pod ''msg'' = Some (PStr kind)" "kind \<in> set client_kinds"
    "map_of pod_fields kind = Some (required, optional)"
    "find (\<lambda>k. \<not> pod_contains k pod) required = Some field"
  shows "ClientMessageFactory_create pod = Inl (KeyError (PStr field))"
  using assms
  by (auto simp: client_kinds_def pod_fields_def client_router_defs decoder_defs
        pod_getitem_Some pod_getitem_absent pod_getitem_present split: if_splits)

lemma missing_server:
  assumes "map_of pod ''msg'' = Some (PStr kind)" "kind \<in> set server_kinds"
    "map_of pod_fields kind = Some (required, optional)"
    "find (\<lambda>k. \<not> pod_contains k pod) required = Some field"
  shows "ServerMessageFactory_create pod = Inl (KeyError (PStr field))"
  using assms
  by (auto simp: server_kinds_def pod_fields_def server_router_defs decoder_defs
        pod_getitem_Some pod_getitem_absent pod_getitem_present split: if_splits)

text \<open>
  C7, as the claim states it, fails: a method pod and an unsub pod that both lack
  \<^verbatim>\<open>id\<close> are rejected with the same error, \<^verbatim>\<open>KeyError('id')\<close>, which holds the
  name of the field and nothing about the kind of message.
\<close>

theorem decode_error_counterexample:
  "ClientMessageFactory_create [(''msg'', PStr ''method'')] = Inl (KeyError (PStr ''id''))
   \<and> ClientMessageFactory_create [(''msg'', PStr ''unsub'')] = Inl (KeyError (PStr ''id''))"
  by (simp add: client_router_defs pod_getitem_def MethodMessageFactory_create_def
        UnsubMessageFactory_create_def)

text \<open>
  C7, amended. Decoding a pod whose discriminant is not registered fails with the
  KeyError of the registry, which holds the discriminant (with TypeError when the
  discriminant is a list or a dictionary and cannot be hashed). Encoding a message
  whose class is not registered fails with the KeyError of the registry, which holds
  the class. Decoding a pod with a registered discriminant and a required field missing
  fails with KeyError holding the key of the first missing field, in the order the
  decoder reads the fields; the error does not name the kind of message.
\<close>

theorem routing_errors:
  "(map_of pod ''msg'' = Some key \<and> (\<forall>k \<in> set server_kinds. key \<noteq> PStr k) \<longrightarrow>
      ServerMessageFactory_create pod =
        Inl (case key of PList _ \<Rightarrow> TypeError ''unhashable type: list''
             | PDict _ \<Rightarrow> TypeError ''unhashable type: dict'' | _ \<Rightarrow> KeyError key))
   \<and> (map_of pod ''msg'' = Some key \<and> (\<forall>k \<in> set client_kinds. key \<noteq> PStr k) \<longrightarrow>
      ClientMessageFactory_create pod =
        Inl (case key of PList _ \<Rightarrow> TypeError ''unhashable type: list''
             | PDict _ \<Rightarrow> TypeError ''unhashable type: dict'' | _ \<Rightarrow> KeyError key))
   \<and> (\<not> is_client m \<longrightarrow> PodClientMessageFactory_create m = Inl (ClassKeyError (type' m)))
   \<and> (is_client m \<longrightarrow> PodServerMessageFactroy_create m = Inl (ClassKeyError (type' m)))
   \<and> (map_of p ''msg'' = Some (PStr kind)
        \<and> map_of pod_fields kind = Some (required, optional)
        \<and> find (\<lambda>k. \<not> pod_contains k p) required = Some field \<longrightarrow>
      (kind \<in> set server_kinds \<longrightarrow>
         ServerMessageFactory_create p = Inl (KeyError (PStr field)))
      \<and> (kind \<in> set client_kinds \<longrightarrow>
         ClientMessageFactory_create p = Inl (KeyError (PStr field))))"
  using server_unregistered [of pod key] client_unregistered [of pod key] no_encoder [of m]
    missing_server [of p kind required optional field]
    missing_client [of p kind required optional field]
  by blast

theorem routing_errors_witness:
  "ServerMessageFactory_create [(''msg'', PStr ''bogus'')] = Inl (KeyError (PStr ''bogus''))
   \<and> ClientMessageFactory_create [(''msg'', PStr ''bogus'')] = Inl (KeyError (PStr ''bogus''))
   \<and> PodClientMessageFactory_create (ConnectedMessage (PStr ''s''))
       = Inl (ClassKeyError ''ConnectedMessage'')
   \<and> PodServerMessageFactroy_create (UnsubMessage (PStr ''1''))
       = Inl (ClassKeyError ''UnsubMessage'')
   \<and> ServerMessageFactory_create [(''msg'', PStr ''removed''), (''collection'', PStr ''c'')]
       = Inl (KeyError (PStr ''id''))
   \<and> ClientMessageFactory_create [(''msg'', PStr ''unsub'')] = Inl (KeyError (PStr ''id''))"
  using routing_errors [of "[(''msg'', PStr ''bogus'')]" "PStr ''bogus''"
      "ConnectedMessage (PStr ''s'')" "[(''msg'', PStr ''removed''), (''collection'', PStr ''c'')]"
      "''removed''" "[''collection'', ''id'']" "[]" "''id''"]
    routing_errors [of "[(''msg'', PStr ''bogus'')]" "PStr ''bogus''"
      "UnsubMessage (PStr ''1'')" "[(''msg'', PStr ''unsub'')]"
      "''unsub''" "[''id'']" "[]" "''id''"]
  by (simp add: server_kinds_def client_kinds_def pod_fields_def pod_contains_def)

section \<open>The pod of each message\<close>

lemmas encoder_defs =
  PodConnectMessageFactory_create_def PodMethodMessageFactory_create_def
  PodSubMessageFactory_create_def PodUnsubMessageFactory_create_def
  PodAddedMessageFactory_create_def PodAddedBeforeMessageFactory_create_def
  PodChangedMessageFactory_create_def PodConnectedMessageFactory_create_def
  PodErrorMessageFactory_create_def PodFailedMessageFactory_create_def
  PodMovedBeforeMessageFactory_create_def PodNosubMessageFactory_create_def
  PodReadyMessageFactory_create_def PodRemovedMessageFactory_create_def
  PodResultMessageFactory_create_def PodUpdatedMessageFactory_create_def

lemma to_pod_client:
  "to_pod (ConnectMessage v s ss) =
     Inr ([(''msg'', PStr MSG_CONNECT), (''version'', v)]
          @ (if s \<noteq> PNone then [(''support'', s)] else [])
          @ (if ss \<noteq> PNone then [(''session'', ss)] else []))"
  "to_pod (MethodMessage i m p) =
     Inr [(''msg'', PStr MSG_METHOD), (''id'', i), (''method'', m), (''params'', p)]"
  "to_pod (SubMessage i n p) =
     Inr ([(''msg'', PStr MSG_SUB), (''id'', i), (''name'', n)]
          @ (if p \<noteq> PNone then [(''params'', p)] else []))"
  "to_pod (UnsubMessage i) = Inr [(''msg'', PStr MSG_UNSUB), (''id'', i)]"
  by (simp_all add: to_pod_def client_router_defs encoder_defs copy_def)

lemma to_pod_server:
  "to_pod (AddedMessage c i f) =
     Inr ([(''msg'', PStr MSG_ADDED), (''id'', i), (''collection'', c)]
          @ (if f \<noteq> PNone then [(''fields'', f)] else []))"
  "to_pod (AddedBeforeMessage c i b f) =
     Inr ([(''msg'', PStr MSG_ADDED_BEFORE), (''collection'', c), (''id'', i), (''before'', b)]
          @ (if f \<noteq> PNone then [(''fields'', f)] else []))"
  "to_pod (ChangedMessage c i cl f) =
     Inr ([(''msg'', PStr MSG_CHANGED), (''collection'', c), (''id'', i)]
          @ (if cl \<noteq> PNone then [(''cleared'', cl)] else [])
          @ (if f \<noteq> PNone then [(''fields'', f)] else []))"
  "to_pod (ConnectedMessage ss) = Inr [(''msg'', PStr MSG_CONNECTED), (''session'', ss)]"
  "to_pod (ErrorMessage r p) =
     Inr [(''msg'', PStr MSG_ERROR), (''reason'', r), (''offendingMessage'', p)]"
  "to_pod (FailedMessage v) = Inr [(''msg'', PStr MSG_FAILED), (''version'', v)]"
  "to_pod (MovedBeforeMessage c i b) =
     Inr [(''msg'', PStr MSG_MOVED_BEFORE), (''collection'', c), (''id'', i), (''before'', b)]"
  "to_pod (NosubMessage i e) =
     Inr ([(''msg'', PStr MSG_NOSUB), (''id'', i)]
          @ (if e \<noteq> PNone then [(''error'', e)] else []))"
  "to_pod (ReadyMessage s) = Inr [(''msg'', PStr MSG_READY), (''subs'', s)]"
  "to_pod (RemovedMessage c i) =
     Inr [(''msg'', PStr MSG_REMOVED), (''collection'', c), (''id'', i)]"
  "to_pod (ResultMessage i e r) =
     Inr ([(''msg'', PStr MSG_RESULT), (''id'', i)]
          @ (if e \<noteq> PNone then [(''error'', e)] else [])
          @ (if r \<noteq> PNone then [(''result'', r)] else []))"
  "to_pod (UpdatedMessage m) = Inr [(''msg'', PStr MSG_UPDATED), (''methods'', m)]"
  by (simp_all add: to_pod_def server_router_defs encoder_defs copy_def)


text \<open>The pod of an added message yields \<^verbatim>\<open>id\<close> before \<^verbatim>\<open>collection\<close>, and would do
  so if the literal were written the other way round; the pods of a method message and
  of a changed message yield their keys in these orders.\<close>

lemma dict_keys_examples:
  "dict_keys [(''msg'', PStr ''added''), (''id'', PStr ''42''), (''collection'', PStr ''things'')]
     = Some [''msg'', ''id'', ''collection'']"
  "dict_keys [(''msg'', PStr ''added''), (''collection'', PStr ''things''), (''id'', PStr ''42'')]
     = Some [''msg'', ''id'', ''collection'']"
  "dict_keys [(''msg'', PStr ''method''), (''id'', PStr ''1''), (''method'', PStr ''add''),
              (''params'', PList [])]
     = Some [''msg'', ''params'', ''id'', ''method'']"
  "dict_keys [(''msg'', PStr ''changed''), (''collection'', PStr ''things''),
              (''id'', PStr ''42''), (''cleared'', PList [PStr ''n'']),
              (''fields'', PDict [(''m'', PInt 1)])]
     = Some [''msg'', ''fields'', ''cleared'', ''id'', ''collection'']"
  by code_simp+




section \<open>Connect messages\<close>

lemma py_eq_PStr [simp]: "py_eq (PStr s) x \<longleftrightarrow> x = PStr s" "py_eq x (PStr s) \<longleftrightarrow> x = PStr s"
  by (cases x; auto)+

lemma py_in_PStr: "py_in (PStr s) xs \<longleftrightarrow> PStr s \<in> set xs"
  by (auto simp: py_in_def list_ex_iff)

lemma list_remove_PStr:
  "PStr s \<in> set xs \<Longrightarrow> list_remove xs (PStr s) = Inr (remove1 (PStr s) xs)"
  by (induction xs) auto

lemma Connect_init_support:
  "ConnectMessage_init (PStr v) (PList xs) ss =
     Inr (ConnectMessage (PStr v)
            (if remove1 (PStr v) xs = [] then PNone else PList (remove1 (PStr v) xs)) ss)"
  by (cases "PStr v \<in> set xs")
     (simp_all add: ConnectMessage_init_def py_in_PStr list_remove_PStr remove1_idem)

lemma Connect_support_elided:
  assumes "ConnectMessage_init (PStr v) (PList xs) ss = Inr m" "count_list xs (PStr v) \<le> 1"
  shows "support_elided m"
proof -
  have "count_list (remove1 (PStr v) xs) (PStr v) = count_list xs (PStr v) - 1"
    by (induction xs) auto
  with assms(2) have "PStr v \<notin> set (remove1 (PStr v) xs)"
    by (simp add: count_list_0_iff [symmetric])
  with assms(1) show ?thesis
    by (auto simp: Connect_init_support py_in_PStr split: if_splits)
qed

lemma Connect_examples:
  "pybind (ConnectMessage_init (PStr ''1'') (PList [PStr ''1'', PStr ''2'']) PNone) to_pod
     = Inr [(''msg'', PStr ''connect''), (''version'', PStr ''1''),
            (''support'', PList [PStr ''2''])]"
  "pybind (ConnectMessage_init (PStr ''1'') (PList [PStr ''1'']) PNone) to_pod
     = Inr [(''msg'', PStr ''connect''), (''version'', PStr ''1'')]"
  by (simp_all add: Connect_init_support to_pod_client)

text \<open>
  C3. \<^verbatim>\<open>ConnectMessage('1', support=['1', '1'])\<close> stores the support \<^verbatim>\<open>['1']\<close>:
  \<^verbatim>\<open>support.remove(version)\<close> takes the first occurrence only, so the preferred version
  is still in the stored support, and the pod has the key \<^verbatim>\<open>support\<close> with it.
\<close>

theorem Connect_duplicate_support:
  "ConnectMessage_init (PStr ''1'') (PList [PStr ''1'', PStr ''1'']) PNone
     = Inr (ConnectMessage (PStr ''1'') (PList [PStr ''1'']) PNone)
   \<and> PodClientMessageFactory_create (ConnectMessage (PStr ''1'') (PList [PStr ''1'']) PNone)
     = Inr [(''msg'', PStr ''connect''), (''version'', PStr ''1''),
            (''support'', PList [PStr ''1''])]"
  using to_pod_client(1) [of "PStr ''1''" "PList [PStr ''1'']" PNone]
  by (simp add: Connect_init_support to_pod_def)

section \<open>Optional fields that are absent\<close>

lemma absent_optional_field_raises:
  "\<exists>msg. support (ConnectMessage v PNone ss) = Inl (AttributeError msg)"
  "\<exists>msg. session (ConnectMessage v s PNone) = Inl (AttributeError msg)"
  "\<exists>msg. params (SubMessage i n PNone) = Inl (AttributeError msg)"
  "\<exists>msg. fields' (AddedMessage c i PNone) = Inl (AttributeError msg)"
  "\<exists>msg. fields' (AddedBeforeMessage c i b PNone) = Inl (AttributeError msg)"
  "\<exists>msg. cleared (ChangedMessage c i PNone f) = Inl (AttributeError msg)"
  "\<exists>msg. fields' (ChangedMessage c i cl PNone) = Inl (AttributeError msg)"
  "\<exists>msg. error (NosubMessage i PNone) = Inl (AttributeError msg)"
  "\<exists>msg. error (ResultMessage i PNone r) = Inl (AttributeError msg)"
  "\<exists>msg. result (ResultMessage i e PNone) = Inl (AttributeError msg)"
  by simp_all

text \<open>
  C4. The changed message of the package, built without \<^verbatim>\<open>cleared\<close> and
  \<^verbatim>\<open>fields\<close>, returns \<^verbatim>\<open>None\<close> from both properties; the class of the same name in
  \<^verbatim>\<open>ddp.py\<close> raises AttributeError.
\<close>

theorem package_changed_message_absent_fields:
  "changed_message_cleared (changed_message_init (PStr ''things'') (PStr ''42'') PNone PNone)
     = Inr PNone
   \<and> changed_message_fields (changed_message_init (PStr ''things'') (PStr ''42'') PNone PNone)
     = Inr PNone
   \<and> cleared (ChangedMessage_init (PStr ''things'') (PStr ''42'') PNone PNone)
     = Inl (AttributeError ''changed message has no `cleared` field'')"
  by (simp add: changed_message_init_def ChangedMessage_init_def copy_def)

section \<open>The connection\<close>

lemma set_fst_setattr: "fst ` set (setattr self attr v) = insert attr (fst ` set self)"
  by (induction self) auto

lemma load_attr_method:
  assumes "fst ` set self \<subseteq> {''_connect_message''}"
  shows "load_attr self ''_opened'' = Inr (Bound_method ''DdpConnection'' ''_opened'')"
    and "load_attr self ''_received_message''
           = Inr (Bound_method ''DdpConnection'' ''_received_message'')"
    and "load_attr self ''_received_message_callback''
           = Inl (AttributeError ''_received_message_callback'')"
proof -
  from assms have "''_opened'' \<notin> fst ` set self" "''_received_message'' \<notin> fst ` set self"
    "''_received_message_callback'' \<notin> fst ` set self"
    by auto
  then have "map_of self ''_opened'' = None" "map_of self ''_received_message'' = None"
    "map_of self ''_received_message_callback'' = None"
    by (simp_all add: map_of_eq_None_iff)
  then show "load_attr self ''_opened'' = Inr (Bound_method ''DdpConnection'' ''_opened'')"
    and "load_attr self ''_received_message''
           = Inr (Bound_method ''DdpConnection'' ''_received_message'')"
    and "load_attr self ''_received_message_callback''
           = Inl (AttributeError ''_received_message_callback'')"
    by (simp_all add: load_attr_def DdpConnection_methods_def)
qed

lemma DdpConnection_init_body_raises:
  assumes "fst ` set self \<subseteq> {''_connect_message''}"
  shows "DdpConnection_init_body self url connect_message on_connected on_disconnected
           on_failed
         = (setattr self ''_connect_message'' connect_message,
            Inl (NameError ''closed_callback''))"
proof -
  from assms
  have "fst ` set (setattr self ''_connect_message'' connect_message)
          \<subseteq> {''_connect_message''}"
    by (simp add: set_fst_setattr)
  from load_attr_method(1,2) [OF this] show ?thesis
    by (simp add: DdpConnection_init_body_def load_name_def module_globals_def builtins_def)
qed

lemma after_call_attrs:
  assumes "fst ` set self \<subseteq> {''_connect_message''}"
  shows "fst ` set (after_call self c) \<subseteq> {''_connect_message''}"
  using assms
  by (cases c)
     (simp_all add: DdpConnection_init_body_raises set_fst_setattr DdpConnection_opened_def
        DdpConnection_received_message_def DdpConnection_connect_def
        DdpConnection_send_def DdpConnection_close_def)

lemma foldl_after_call_attrs:
  "fst ` set self \<subseteq> {''_connect_message''} \<Longrightarrow>
     fst ` set (foldl after_call self calls) \<subseteq> {''_connect_message''}"
  by (induction calls arbitrary: self) (simp_all add: after_call_attrs)

lemma after_calls_attrs: "fst ` set (after_calls calls) \<subseteq> {''_connect_message''}"
  unfolding after_calls_def by (rule foldl_after_call_attrs) simp

text \<open>
  C10. Whatever the arguments, \<^verbatim>\<open>DdpConnection.__init__\<close> raises NameError for
  \<^verbatim>\<open>closed_callback\<close>, so no connection is ever constructed. Whatever methods of the
  class have run on an object, in whatever order and with whatever arguments, no
  attribute \<^verbatim>\<open>_received_message_callback\<close> has been assigned, and
  \<^verbatim>\<open>_received_message\<close> raises AttributeError for it.
\<close>

theorem DdpConnection_cannot_be_constructed:
  "DdpConnection_init url connect_message on_connected on_disconnected on_failed
     = Inl (NameError ''closed_callback'')
   \<and> snd (DdpConnection_received_message (after_calls calls) message)
     = Inl (AttributeError ''_received_message_callback'')"
proof
  show "DdpConnection_init url connect_message on_connected on_disconnected on_failed
     = Inl (NameError ''closed_callback'')"
    by (simp add: DdpConnection_init_def DdpConnection_init_body_raises)
next
  show "snd (DdpConnection_received_message (after_calls calls) message)
     = Inl (AttributeError ''_received_message_callback'')"
    using load_attr_method(3) [OF after_calls_attrs, of calls]
    by (simp add: DdpConnection_received_message_def)
qed

section \<open>Waiting for a future\<close>

lemma Future_get_is_set:
  "is_set self \<Longrightarrow> Future_get wait timeout n self = Some (fvalue self)"
  by (subst Future_get.simps) simp

lemma Future_get_after_set: "Future_get wait timeout n (Future_set self v) = Some v"
  by (simp add: Future_get_is_set Future_set_def)

lemma Future_get_returns_only_when_set:
  assumes "Future_get wait timeout n self = Some y"
  shows "(\<forall>n f. \<not> is_set f \<longrightarrow> \<not> is_set (wait timeout n f)) \<longrightarrow> is_set self"
  by (rule Future_get.raw_induct
        [where P = "\<lambda>wait timeout n self y.
            (\<forall>n f. \<not> is_set f \<longrightarrow> \<not> is_set (wait timeout n f)) \<longrightarrow> is_set self",
         OF _ assms])
     (simp split: if_splits, blast)

lemma Future_get_never_set:
  assumes "\<forall>n f. \<not> is_set f \<longrightarrow> \<not> is_set (wait timeout n f)" "\<not> is_set self"
  shows "Future_get wait timeout n self = None"
  using assms Future_get_returns_only_when_set [of wait timeout n self]
  by (cases "Future_get wait timeout n self") auto

lemma Future_get_late_set:
  "is_set ((wait timeout n) self) \<Longrightarrow> \<not> is_set self \<Longrightarrow>
   Future_get wait timeout n self = Some (fvalue (wait timeout n self))"
  by (subst Future_get.simps) (simp add: Future_get_is_set)

text \<open>
  C8. A future that no thread sets: every call of \<^verbatim>\<open>wait\<close> returns when the timeout
  of one second has elapsed and leaves the future as it was. \<^verbatim>\<open>Future.get\<close> then tests
  \<^verbatim>\<open>_is_set\<close> and waits again, without end: it returns nothing, no timeout indication
  either. On a future that has been set it returns the value.
\<close>

theorem Future_get_blocks_past_timeout:
  "Future_get (\<lambda>timeout n self. self) (PInt 1) 0 Future_init = None
   \<and> Future_get (\<lambda>timeout n self. self) (PInt 1) 0 (Future_set Future_init (PStr ''reply''))
       = Some (PStr ''reply'')"
  by (simp add: Future_get_never_set Future_get_after_set Future_init_def)

section \<open>Collections handed out by accessors\<close>

lemma ConnectMessage_support_is_shared:
  "(let st0 = \<lparr>objs = [0 \<mapsto> PList [PStr ''1'', PStr ''2'']], fresh = 1\<rparr>
    in case ConnectMessage_init_st st0 (PStr ''1'') (Ref 0) (Imm PNone) of
         Inl e \<Rightarrow> False
       | Inr (st1, m) \<Rightarrow>
          (case ConnectMessage_support_st st1 m of
             Inl e \<Rightarrow> False
           | Inr (st1', p) \<Rightarrow>
               (case list_append_st st1' p (PStr ''3'') of
                  Inl e \<Rightarrow> False
                | Inr st2 \<Rightarrow>
                    deref st1 (connect_support m) = Some (PList [PStr ''2''])
                    \<and> deref st2 (connect_support m) = Some (PList [PStr ''2'', PStr ''3'']))))"
  by (simp add: ConnectMessage_init_st_def copy_st_def alloc_def ConnectMessage_support_st_def
      ConnectMessage_has_support_st_def list_append_st_def deref_def py_in_def)

lemma SubMessage_init_copies:
  assumes "objs st a = Some (PList xs)" "a < fresh st"
    "SubMessage_init_st st i n (Ref a) = (st1, m)"
    "list_append_st st1 (Ref a) x = Inr st2"
  shows "deref st2 (sub_params m) = Some (PList xs) \<and> deref st2 (Ref a) = Some (PList (xs @ [x]))"
  using assms
  by (auto simp: SubMessage_init_st_def copy_st_def alloc_def list_append_st_def deref_def
      split: option.splits pyval.splits)

lemma MethodMessage_params_copies:
  assumes "deref st (method_params m) = Some (PList xs)"
    "\<forall>a. method_params m = Ref a \<longrightarrow> a < fresh st"
    "MethodMessage_params_st st m = Inr (st1, p)"
    "list_append_st st1 p x = Inr st2"
  shows "deref st2 (method_params m) = Some (PList xs)"
  using assms
  by (auto simp: MethodMessage_params_st_def copy_st_def alloc_def list_append_st_def deref_def
      split: option.splits pyval.splits hval.splits)

text \<open>
  C5. A sub message is built from the list \<^verbatim>\<open>['a']\<close>; the caller reads
  \<^verbatim>\<open>message.params\<close> and appends \<^verbatim>\<open>'b'\<close> to what it got. The property returned the
  list the message holds, not a copy, so the params of the message are now
  \<^verbatim>\<open>['a', 'b']\<close>.
\<close>

theorem SubMessage_params_is_shared:
  "(let st0 = \<lparr>objs = [0 \<mapsto> PList [PStr ''a'']], fresh = 1\<rparr>;
        (st1, m) = SubMessage_init_st st0 (Imm (PStr ''1'')) (Imm (PStr ''n'')) (Ref 0)
    in case SubMessage_params_st st1 m of
         Inl e \<Rightarrow> False
       | Inr (st1', p) \<Rightarrow>
           (case list_append_st st1' p (PStr ''b'') of
              Inl e \<Rightarrow> False
            | Inr st2 \<Rightarrow>
                deref st1 (sub_params m) = Some (PList [PStr ''a''])
                \<and> deref st2 (sub_params m) = Some (PList [PStr ''a'', PStr ''b''])))"
  by (simp add: SubMessage_init_st_def copy_st_def alloc_def SubMessage_params_st_def
      SubMessage_has_params_st_def list_append_st_def deref_def)

section \<open>Round trips through the codec\<close>

lemma message_roundtrip_client:
  assumes "is_client m" "constructed m" "support_elided m"
  shows "\<exists>pod. PodClientMessageFactory_create m = Inr pod
           \<and> ClientMessageFactory_create pod = Inr m"
proof (cases m)
  case (ConnectMessage v s ss)
  with assms(2,3) show ?thesis
    using to_pod_client(1) [of v s ss]
    by (cases s; cases "ss = PNone")
       (simp_all add: to_pod_def client_router_defs decoder_defs ConnectMessage_init_def
          pod_getitem_def pod_get_def)
next
  case (MethodMessage i me p)
  then show ?thesis
    using to_pod_client(2) [of i me p]
    by (simp add: to_pod_def client_router_defs decoder_defs MethodMessage_init_def
          pod_getitem_def pod_get_def copy_def)
next
  case (SubMessage i n p)
  then show ?thesis
    using to_pod_client(3) [of i n p]
    by (cases "p = PNone")
       (simp_all add: to_pod_def client_router_defs decoder_defs SubMessage_init_def
          pod_getitem_def pod_get_def copy_def)
next
  case (UnsubMessage i)
  then show ?thesis
    using to_pod_client(4) [of i]
    by (simp add: to_pod_def client_router_defs decoder_defs UnsubMessage_init_def
          pod_getitem_def pod_get_def copy_def)
qed (use assms(1) in simp_all)

lemma message_roundtrip_server:
  assumes "\<not> is_client m" "constructed m"
  shows "\<exists>pod. PodServerMessageFactroy_create m = Inr pod
           \<and> ServerMessageFactory_create pod = Inr m"
proof (cases m)
  case (AddedMessage c i f)
  with assms(2) show ?thesis
    using to_pod_server(1) [of c i f]
    by (cases "f = PNone")
       (simp_all add: to_pod_def server_router_defs decoder_defs AddedMessage_init_def
          pod_getitem_def pod_get_def copy_def nexists_pair)
next
  case (AddedBeforeMessage c i b f)
  with assms(2) show ?thesis
    using to_pod_server(2) [of c i b f]
    by (cases "f = PNone")
       (simp_all add: to_pod_def server_router_defs decoder_defs AddedBeforeMessage_init_def
          pod_getitem_def pod_get_def copy_def nexists_pair)
next
  case (ChangedMessage c i cl f)
  with assms(2) show ?thesis
    using to_pod_server(3) [of c i cl f]
    by (cases "cl = PNone"; cases "f = PNone")
       (simp_all add: to_pod_def server_router_defs decoder_defs ChangedMessage_init_def
          pod_getitem_def pod_get_def copy_def nexists_pair)
next
  case (ConnectedMessage ss)
  with assms(2) show ?thesis
    using to_pod_server(4) [of ss]
    by (simp add: to_pod_def server_router_defs decoder_defs ConnectedMessage_init_def
          pod_getitem_def pod_get_def copy_def nexists_pair)
next
  case (ErrorMessage r p)
  with assms(2) show ?thesis
    using to_pod_server(5) [of r p]
    by (simp add: to_pod_def server_router_defs decoder_defs ErrorMessage_init_def
          pod_getitem_def pod_get_def copy_def nexists_pair)
next
  case (FailedMessage v)
  with assms(2) show ?thesis
    using to_pod_server(6) [of v]
    by (simp add: to_pod_def server_router_defs decoder_defs FailedMessage_init_def
          pod_getitem_def pod_get_def copy_def nexists_pair)
next
  case (MovedBeforeMessage c i b)
  with assms(2) show ?thesis
    using to_pod_server(7) [of c i b]
    by (simp add: to_pod_def server_router_defs decoder_defs MovedBeforeMessage_init_def
          pod_getitem_def pod_get_def copy_def nexists_pair)
next
  case (NosubMessage i e)
  with assms(2) show ?thesis
    using to_pod_server(8) [of i e]
    by (cases "e = PNone")
       (simp_all add: to_pod_def server_router_defs decoder_defs NosubMessage_init_def
          pod_getitem_def pod_get_def copy_def nexists_pair)
next
  case (ReadyMessage s)
  with assms(2) show ?thesis
    using to_pod_server(9) [of s]
    by (simp add: to_pod_def server_router_defs decoder_defs ReadyMessage_init_def
          pod_getitem_def pod_get_def copy_def nexists_pair)
next
  case (RemovedMessage c i)
  with assms(2) show ?thesis
    using to_pod_server(10) [of c i]
    by (simp add: to_pod_def server_router_defs decoder_defs RemovedMessage_init_def
          pod_getitem_def pod_get_def copy_def nexists_pair)
next
  case (ResultMessage i e r)
  with assms(2) show ?thesis
    using to_pod_server(11) [of i e r]
    by (cases "e = PNone"; cases "r = PNone")
       (simp_all add: to_pod_def server_router_defs decoder_defs ResultMessage_init_def
          pod_getitem_def pod_get_def copy_def nexists_pair)
next
  case (UpdatedMessage me)
  with assms(2) show ?thesis
    using to_pod_server(12) [of me]
    by (simp add: to_pod_def server_router_defs decoder_defs UpdatedMessage_init_def
          pod_getitem_def pod_get_def copy_def nexists_pair)
qed (use assms(1) in simp_all)


lemma canonical_pod_set:
  assumes "canonical_pod kind p" "map_of pod_fields kind = Some (req, opt)"
  shows "set p = insert (''msg'', PStr kind)
           (set (map (\<lambda>k. (k, pod_get p k)) req)
            \<union> set (map (\<lambda>k. (k, pod_get p k)) (filter (\<lambda>k. pod_get p k \<noteq> PNone) opt)))"
    (is "_ = ?nf")
proof -
  from assms have d: "distinct (map fst p)"
    and msg: "map_of p ''msg'' = Some (PStr kind)"
    and req: "\<forall>k \<in> set req. pod_contains k p"
    and keys: "\<forall>k \<in> set (map fst p). k = ''msg'' \<or> k \<in> set req \<or> k \<in> set opt"
    and opt: "\<forall>k \<in> set opt. map_of p k \<noteq> Some PNone"
    by (auto simp: canonical_pod_def pod_keys_def list_all_iff)
  have get: "pod_get p k = v" if "(k, v) \<in> set p" for k v
    using that d by (simp add: pod_get_def)
  show ?thesis
  proof (intro set_eqI iffI)
    fix kv assume in_p: "kv \<in> set p"
    obtain k v where kv: "kv = (k, v)" by (cases kv)
    from in_p kv d have m: "map_of p k = Some v" by simp
    from in_p kv have "k \<in> set (map fst p)" by force
    with keys consider "k = ''msg''" | "k \<in> set req" | "k \<in> set opt" by blast
    then show "kv \<in> ?nf"
    proof cases
      case 1
      with m msg kv show ?thesis by simp
    next
      case 2
      with get [of k v] in_p kv show ?thesis by auto
    next
      case 3
      with opt m have "v \<noteq> PNone" by auto
      with 3 get [of k v] in_p kv show ?thesis by auto
    qed
  next
    fix kv assume "kv \<in> ?nf"
    then consider "kv = (''msg'', PStr kind)"
      | k where "k \<in> set req" "kv = (k, pod_get p k)"
      | k where "k \<in> set opt" "pod_get p k \<noteq> PNone" "kv = (k, pod_get p k)"
      by auto
    then show "kv \<in> set p"
    proof cases
      case 1
      with msg show ?thesis by (auto dest: map_of_SomeD)
    next
      case 2
      with req have "pod_contains k p" by blast
      then obtain v where "(k, v) \<in> set p" by (auto simp: pod_contains_def)
      with get [of k v] 2 show ?thesis by simp
    next
      case 3
      then obtain v where "map_of p k = Some v" by (auto simp: pod_get_def split: option.splits)
      then have "(k, v) \<in> set p" by (rule map_of_SomeD)
      with get [of k v] 3 show ?thesis by simp
    qed
  qed
qed

lemma pod_contains_iff: "pod_contains k p \<longleftrightarrow> map_of p k \<noteq> None"
  by (simp add: pod_contains_def map_of_eq_None_iff)

lemma pod_get_optional:
  "map_of p k \<noteq> Some PNone \<Longrightarrow> pod_get p k \<noteq> PNone \<longleftrightarrow> pod_contains k p"
  by (auto simp: pod_get_def pod_contains_iff split: option.splits)

lemma pod_roundtrip_connect:
  assumes "canonical_pod MSG_CONNECT p"
  shows "\<exists>m q. ClientMessageFactory_create p = Inr m
            \<and> PodClientMessageFactory_create m = Inr q \<and> pod_equal q p"
proof -
  have f: "map_of pod_fields MSG_CONNECT = Some ([''version''], [''support'', ''session''])"
    by (simp add: pod_fields_def)
  from assms have msg: "map_of p ''msg'' = Some (PStr MSG_CONNECT)"
    and req: "pod_contains ''version'' p"
    and opt: "map_of p ''support'' \<noteq> Some PNone" "map_of p ''session'' \<noteq> Some PNone"
    and cond: "kind_condition MSG_CONNECT p"
    by (simp_all add: canonical_pod_def f)
  from cond opt have "ConnectMessage_init (pod_get p ''version'') (pod_get p ''support'')
        (pod_get p ''session'')
      = Inr (ConnectMessage (pod_get p ''version'') (pod_get p ''support'')
          (pod_get p ''session''))"
    by (auto simp: kind_condition_def ConnectMessage_init_def pod_get_def
        split: option.splits pyval.splits)
  then have dec: "ClientMessageFactory_create p = Inr (ConnectMessage (pod_get p ''version'') (pod_get p ''support'') (pod_get p ''session''))"
    by (simp add: client_router_defs decoder_defs pod_getitem_Some [OF msg] pod_getitem_present req)
  show ?thesis
    unfolding dec
    using to_pod_client(1) [of "pod_get p ''version''" "pod_get p ''support''" "pod_get p ''session''"]
    by (auto simp: to_pod_def pod_equal_def canonical_pod_set [OF assms f])
qed

lemma pod_roundtrip_method:
  assumes "canonical_pod MSG_METHOD p"
  shows "\<exists>m q. ClientMessageFactory_create p = Inr m
            \<and> PodClientMessageFactory_create m = Inr q \<and> pod_equal q p"
proof -
  have f: "map_of pod_fields MSG_METHOD = Some ([''id'', ''method'', ''params''], [])"
    by (simp add: pod_fields_def)
  from assms have msg: "map_of p ''msg'' = Some (PStr MSG_METHOD)"
    and req: "pod_contains ''id'' p" "pod_contains ''method'' p" "pod_contains ''params'' p"
    by (simp_all add: canonical_pod_def f)
  have dec: "ClientMessageFactory_create p = Inr (MethodMessage (pod_get p ''id'') (pod_get p ''method'') (pod_get p ''params''))"
    by (simp add: client_router_defs decoder_defs pod_getitem_Some [OF msg]
        pod_getitem_present req MethodMessage_init_def copy_def)
  show ?thesis
    unfolding dec
    using to_pod_client(2) [of "pod_get p ''id''" "pod_get p ''method''" "pod_get p ''params''"]
    by (auto simp: to_pod_def pod_equal_def canonical_pod_set [OF assms f])
qed

lemma pod_roundtrip_sub:
  assumes "canonical_pod MSG_SUB p"
  shows "\<exists>m q. ClientMessageFactory_create p = Inr m
            \<and> PodClientMessageFactory_create m = Inr q \<and> pod_equal q p"
proof -
  have f: "map_of pod_fields MSG_SUB = Some ([''id'', ''name''], [''params''])"
    by (simp add: pod_fields_def)
  from assms have msg: "map_of p ''msg'' = Some (PStr MSG_SUB)"
    and req: "pod_contains ''id'' p" "pod_contains ''name'' p"
    and opt: "map_of p ''params'' \<noteq> Some PNone"
    by (simp_all add: canonical_pod_def f)
  have dec: "ClientMessageFactory_create p = Inr (SubMessage (pod_get p ''id'') (pod_get p ''name'') (pod_get p ''params''))"
    by (simp add: client_router_defs decoder_defs pod_getitem_Some [OF msg]
        pod_getitem_present req SubMessage_init_def copy_def)
  show ?thesis
    unfolding dec
    using to_pod_client(3) [of "pod_get p ''id''" "pod_get p ''name''" "pod_get p ''params''"]
    by (auto simp: to_pod_def pod_equal_def canonical_pod_set [OF assms f])
qed

lemma pod_roundtrip_unsub:
  assumes "canonical_pod MSG_UNSUB p"
  shows "\<exists>m q. ClientMessageFactory_create p = Inr m
            \<and> PodClientMessageFactory_create m = Inr q \<and> pod_equal q p"
proof -
  have f: "map_of pod_fields MSG_UNSUB = Some ([''id''], [])"
    by (simp add: pod_fields_def)
  from assms have msg: "map_of p ''msg'' = Some (PStr MSG_UNSUB)"
    and req: "pod_contains ''id'' p"
    by (simp_all add: canonical_pod_def f)
  have dec: "ClientMessageFactory_create p = Inr (UnsubMessage (pod_get p ''id''))"
    by (simp add: client_router_defs decoder_defs pod_getitem_Some [OF msg]
        pod_getitem_present req UnsubMessage_init_def copy_def)
  show ?thesis
    unfolding dec
    using to_pod_client(4) [of "pod_get p ''id''"]
    by (auto simp: to_pod_def pod_equal_def canonical_pod_set [OF assms f])
qed

lemma pod_roundtrip_added:
  assumes "canonical_pod MSG_ADDED p"
  shows "\<exists>m q. ServerMessageFactory_create p = Inr m
            \<and> PodServerMessageFactroy_create m = Inr q \<and> pod_equal q p"
proof -
  have f: "map_of pod_fields MSG_ADDED = Some ([''collection'', ''id''], [''fields''])"
    by (simp add: pod_fields_def)
  from assms have msg: "map_of p ''msg'' = Some (PStr MSG_ADDED)"
    and req: "pod_contains ''collection'' p" "pod_contains ''id'' p"
    and opt: "map_of p ''fields'' \<noteq> Some PNone"
    by (simp_all add: canonical_pod_def f)
  have dec: "ServerMessageFactory_create p = Inr (AddedMessage (pod_get p ''collection'') (pod_get p ''id'') (pod_get p ''fields''))"
    by (simp add: server_router_defs decoder_defs pod_getitem_Some [OF msg]
        pod_getitem_present req AddedMessage_init_def copy_def)
  show ?thesis
    unfolding dec
    using to_pod_server(1) [of "pod_get p ''collection''" "pod_get p ''id''" "pod_get p ''fields''"]
    by (auto simp: to_pod_def pod_equal_def canonical_pod_set [OF assms f])
qed

lemma pod_roundtrip_added_before:
  assumes "canonical_pod MSG_ADDED_BEFORE p"
  shows "\<exists>m q. ServerMessageFactory_create p = Inr m
            \<and> PodServerMessageFactroy_create m = Inr q \<and> pod_equal q p"
proof -
  have f: "map_of pod_fields MSG_ADDED_BEFORE = Some ([''collection'', ''id'', ''before''], [''fields''])"
    by (simp add: pod_fields_def)
  from assms have msg: "map_of p ''msg'' = Some (PStr MSG_ADDED_BEFORE)"
    and req: "pod_contains ''collection'' p" "pod_contains ''id'' p" "pod_contains ''before'' p"
    and opt: "map_of p ''fields'' \<noteq> Some PNone"
    by (simp_all add: canonical_pod_def f)
  have dec: "ServerMessageFactory_create p = Inr (AddedBeforeMessage (pod_get p ''collection'') (pod_get p ''id'') (pod_get p ''before'') (pod_get p ''fields''))"
    by (simp add: server_router_defs decoder_defs pod_getitem_Some [OF msg]
        pod_getitem_present req AddedBeforeMessage_init_def copy_def)
  show ?thesis
    unfolding dec
    using to_pod_server(2) [of "pod_get p ''collection''" "pod_get p ''id''" "pod_get p ''before''" "pod_get p ''fields''"]
    by (auto simp: to_pod_def pod_equal_def canonical_pod_set [OF assms f])
qed

lemma pod_roundtrip_changed:
  assumes "canonical_pod MSG_CHANGED p"
  shows "\<exists>m q. ServerMessageFactory_create p = Inr m
            \<and> PodServerMessageFactroy_create m = Inr q \<and> pod_equal q p"
proof -
  have f: "map_of pod_fields MSG_CHANGED = Some ([''collection'', ''id''], [''cleared'', ''fields''])"
    by (simp add: pod_fields_def)
  from assms have msg: "map_of p ''msg'' = Some (PStr MSG_CHANGED)"
    and req: "pod_contains ''collection'' p" "pod_contains ''id'' p"
    and opt: "map_of p ''cleared'' \<noteq> Some PNone" "map_of p ''fields'' \<noteq> Some PNone"
    by (simp_all add: canonical_pod_def f)
  have dec: "ServerMessageFactory_create p = Inr (ChangedMessage (pod_get p ''collection'') (pod_get p ''id'') (pod_get p ''cleared'') (pod_get p ''fields''))"
    by (simp add: server_router_defs decoder_defs pod_getitem_Some [OF msg]
        pod_getitem_present req ChangedMessage_init_def copy_def)
  show ?thesis
    unfolding dec
    using to_pod_server(3) [of "pod_get p ''collection''" "pod_get p ''id''" "pod_get p ''cleared''" "pod_get p ''fields''"]
    by (auto simp: to_pod_def pod_equal_def canonical_pod_set [OF assms f])
qed

lemma pod_roundtrip_connected:
  assumes "canonical_pod MSG_CONNECTED p"
  shows "\<exists>m q. ServerMessageFactory_create p = Inr m
            \<and> PodServerMessageFactroy_create m = Inr q \<and> pod_equal q p"
proof -
  have f: "map_of pod_fields MSG_CONNECTED = Some ([''session''], [])"
    by (simp add: pod_fields_def)
  from assms have msg: "map_of p ''msg'' = Some (PStr MSG_CONNECTED)"
    and req: "pod_contains ''session'' p"
    by (simp_all add: canonical_pod_def f)
  have dec: "ServerMessageFactory_create p = Inr (ConnectedMessage (pod_get p ''session''))"
    by (simp add: server_router_defs decoder_defs pod_getitem_Some [OF msg]
        pod_getitem_present req ConnectedMessage_init_def copy_def)
  show ?thesis
    unfolding dec
    using to_pod_server(4) [of "pod_get p ''session''"]
    by (auto simp: to_pod_def pod_equal_def canonical_pod_set [OF assms f])
qed

lemma pod_roundtrip_error:
  assumes "canonical_pod MSG_ERROR p"
  shows "\<exists>m q. ServerMessageFactory_create p = Inr m
            \<and> PodServerMessageFactroy_create m = Inr q \<and> pod_equal q p"
proof -
  have f: "map_of pod_fields MSG_ERROR = Some ([''reason'', ''offendingMessage''], [])"
    by (simp add: pod_fields_def)
  from assms have msg: "map_of p ''msg'' = Some (PStr MSG_ERROR)"
    and req: "pod_contains ''reason'' p" "pod_contains ''offendingMessage'' p"
    by (simp_all add: canonical_pod_def f)
  have dec: "ServerMessageFactory_create p = Inr (ErrorMessage (pod_get p ''reason'') (pod_get p ''offendingMessage''))"
    by (simp add: server_router_defs decoder_defs pod_getitem_Some [OF msg]
        pod_getitem_present req ErrorMessage_init_def copy_def)
  show ?thesis
    unfolding dec
    using to_pod_server(5) [of "pod_get p ''reason''" "pod_get p ''offendingMessage''"]
    by (auto simp: to_pod_def pod_equal_def canonical_pod_set [OF assms f])
qed

lemma pod_roundtrip_failed:
  assumes "canonical_pod MSG_FAILED p"
  shows "\<exists>m q. ServerMessageFactory_create p = Inr m
            \<and> PodServerMessageFactroy_create m = Inr q \<and> pod_equal q p"
proof -
  have f: "map_of pod_fields MSG_FAILED = Some ([''version''], [])"
    by (simp add: pod_fields_def)
  from assms have msg: "map_of p ''msg'' = Some (PStr MSG_FAILED)"
    and req: "pod_contains ''version'' p"
    by (simp_all add: canonical_pod_def f)
  have dec: "ServerMessageFactory_create p = Inr (FailedMessage (pod_get p ''version''))"
    by (simp add: server_router_defs decoder_defs pod_getitem_Some [OF msg]
        pod_getitem_present req FailedMessage_init_def copy_def)
  show ?thesis
    unfolding dec
    using to_pod_server(6) [of "pod_get p ''version''"]
    by (auto simp: to_pod_def pod_equal_def canonical_pod_set [OF assms f])
qed

lemma pod_roundtrip_moved_before:
  assumes "canonical_pod MSG_MOVED_BEFORE p"
  shows "\<exists>m q. ServerMessageFactory_create p = Inr m
            \<and> PodServerMessageFactroy_create m = Inr q \<and> pod_equal q p"
proof -
  have f: "map_of pod_fields MSG_MOVED_BEFORE = Some ([''collection'', ''id'', ''before''], [])"
    by (simp add: pod_fields_def)
  from assms have msg: "map_of p ''msg'' = Some (PStr MSG_MOVED_BEFORE)"
    and req: "pod_contains ''collection'' p" "pod_contains ''id'' p" "pod_contains ''before'' p"
    by (simp_all add: canonical_pod_def f)
  have dec: "ServerMessageFactory_create p = Inr (MovedBeforeMessage (pod_get p ''collection'') (pod_get p ''id'') (pod_get p ''before''))"
    by (simp add: server_router_defs decoder_defs pod_getitem_Some [OF msg]
        pod_getitem_present req MovedBeforeMessage_init_def copy_def)
  show ?thesis
    unfolding dec
    using to_pod_server(7) [of "pod_get p ''collection''" "pod_get p ''id''" "pod_get p ''before''"]
    by (auto simp: to_pod_def pod_equal_def canonical_pod_set [OF assms f])
qed

lemma pod_roundtrip_nosub:
  assumes "canonical_pod MSG_NOSUB p"
  shows "\<exists>m q. ServerMessageFactory_create p = Inr m
            \<and> PodServerMessageFactroy_create m = Inr q \<and> pod_equal q p"
proof -
  have f: "map_of pod_fields MSG_NOSUB = Some ([''id''], [''error''])"
    by (simp add: pod_fields_def)
  from assms have msg: "map_of p ''msg'' = Some (PStr MSG_NOSUB)"
    and req: "pod_contains ''id'' p"
    and opt: "map_of p ''error'' \<noteq> Some PNone"
    by (simp_all add: canonical_pod_def f)
  have dec: "ServerMessageFactory_create p = Inr (NosubMessage (pod_get p ''id'') (pod_get p ''error''))"
    by (simp add: server_router_defs decoder_defs pod_getitem_Some [OF msg]
        pod_getitem_present req NosubMessage_init_def copy_def)
  show ?thesis
    unfolding dec
    using to_pod_server(8) [of "pod_get p ''id''" "pod_get p ''error''"]
    by (auto simp: to_pod_def pod_equal_def canonical_pod_set [OF assms f])
qed

lemma pod_roundtrip_ready:
  assumes "canonical_pod MSG_READY p"
  shows "\<exists>m q. ServerMessageFactory_create p = Inr m
            \<and> PodServerMessageFactroy_create m = Inr q \<and> pod_equal q p"
proof -
  have f: "map_of pod_fields MSG_READY = Some ([''subs''], [])"
    by (simp add: pod_fields_def)
  from assms have msg: "map_of p ''msg'' = Some (PStr MSG_READY)"
    and req: "pod_contains ''subs'' p"
    by (simp_all add: canonical_pod_def f)
  have dec: "ServerMessageFactory_create p = Inr (ReadyMessage (pod_get p ''subs''))"
    by (simp add: server_router_defs decoder_defs pod_getitem_Some [OF msg]
        pod_getitem_present req ReadyMessage_init_def copy_def)
  show ?thesis
    unfolding dec
    using to_pod_server(9) [of "pod_get p ''subs''"]
    by (auto simp: to_pod_def pod_equal_def canonical_pod_set [OF assms f])
qed

lemma pod_roundtrip_removed:
  assumes "canonical_pod MSG_REMOVED p"
  shows "\<exists>m q. ServerMessageFactory_create p = Inr m
            \<and> PodServerMessageFactroy_create m = Inr q \<and> pod_equal q p"
proof -
  have f: "map_of pod_fields MSG_REMOVED = Some ([''collection'', ''id''], [])"
    by (simp add: pod_fields_def)
  from assms have msg: "map_of p ''msg'' = Some (PStr MSG_REMOVED)"
    and req: "pod_contains ''collection'' p" "pod_contains ''id'' p"
    by (simp_all add: canonical_pod_def f)
  have dec: "ServerMessageFactory_create p = Inr (RemovedMessage (pod_get p ''collection'') (pod_get p ''id''))"
    by (simp add: server_router_defs decoder_defs pod_getitem_Some [OF msg]
        pod_getitem_present req RemovedMessage_init_def copy_def)
  show ?thesis
    unfolding dec
    using to_pod_server(10) [of "pod_get p ''collection''" "pod_get p ''id''"]
    by (auto simp: to_pod_def pod_equal_def canonical_pod_set [OF assms f])
qed

lemma pod_roundtrip_result:
  assumes "canonical_pod MSG_RESULT p"
  shows "\<exists>m q. ServerMessageFactory_create p = Inr m
            \<and> PodServerMessageFactroy_create m = Inr q \<and> pod_equal q p"
proof -
  have f: "map_of pod_fields MSG_RESULT = Some ([''id''], [''error'', ''result''])"
    by (simp add: pod_fields_def)
  from assms have msg: "map_of p ''msg'' = Some (PStr MSG_RESULT)"
    and req: "pod_contains ''id'' p"
    and opt: "map_of p ''error'' \<noteq> Some PNone" "map_of p ''result'' \<noteq> Some PNone"
    and cond: "kind_condition MSG_RESULT p"
    by (simp_all add: canonical_pod_def f)
  from cond opt have "ResultMessage_init (pod_get p ''id'') (pod_get p ''error'')
        (pod_get p ''result'')
      = Inr (ResultMessage (pod_get p ''id'') (pod_get p ''error'') (pod_get p ''result''))"
    using pod_get_optional [of p "''error''"] pod_get_optional [of p "''result''"]
    by (auto simp: kind_condition_def ResultMessage_init_def nexists_pair)
  then have dec: "ServerMessageFactory_create p = Inr (ResultMessage (pod_get p ''id'') (pod_get p ''error'') (pod_get p ''result''))"
    by (simp add: server_router_defs decoder_defs pod_getitem_Some [OF msg] pod_getitem_present req)
  show ?thesis
    unfolding dec
    using to_pod_server(11) [of "pod_get p ''id''" "pod_get p ''error''" "pod_get p ''result''"]
    by (auto simp: to_pod_def pod_equal_def canonical_pod_set [OF assms f])
qed

lemma pod_roundtrip_updated:
  assumes "canonical_pod MSG_UPDATED p"
  shows "\<exists>m q. ServerMessageFactory_create p = Inr m
            \<and> PodServerMessageFactroy_create m = Inr q \<and> pod_equal q p"
proof -
  have f: "map_of pod_fields MSG_UPDATED = Some ([''methods''], [])"
    by (simp add: pod_fields_def)
  from assms have msg: "map_of p ''msg'' = Some (PStr MSG_UPDATED)"
    and req: "pod_contains ''methods'' p"
    by (simp_all add: canonical_pod_def f)
  have dec: "ServerMessageFactory_create p = Inr (UpdatedMessage (pod_get p ''methods''))"
    by (simp add: server_router_defs decoder_defs pod_getitem_Some [OF msg]
        pod_getitem_present req UpdatedMessage_init_def copy_def)
  show ?thesis
    unfolding dec
    using to_pod_server(12) [of "pod_get p ''methods''"]
    by (auto simp: to_pod_def pod_equal_def canonical_pod_set [OF assms f])
qed

lemma pod_roundtrip_client:
  assumes "kind \<in> set client_kinds" "canonical_pod kind p"
  shows "\<exists>m q. ClientMessageFactory_create p = Inr m
            \<and> PodClientMessageFactory_create m = Inr q \<and> pod_equal q p"
  using assms pod_roundtrip_connect pod_roundtrip_method pod_roundtrip_sub pod_roundtrip_unsub
  by (auto simp: client_kinds_def)

lemma pod_roundtrip_server:
  assumes "kind \<in> set server_kinds" "canonical_pod kind p"
  shows "\<exists>m q. ServerMessageFactory_create p = Inr m
            \<and> PodServerMessageFactroy_create m = Inr q \<and> pod_equal q p"
  using assms pod_roundtrip_added pod_roundtrip_added_before pod_roundtrip_changed
    pod_roundtrip_connected pod_roundtrip_error pod_roundtrip_failed
    pod_roundtrip_moved_before pod_roundtrip_nosub pod_roundtrip_ready
    pod_roundtrip_removed pod_roundtrip_result pod_roundtrip_updated
  by (auto simp: server_kinds_def)

lemma pod_not_equalI: "kv \<in> set p \<Longrightarrow> kv \<notin> set q \<Longrightarrow> \<not> pod_equal q p"
  by (auto simp: pod_equal_def)

lemma init_constructed:
  "ConnectMessage_init v s ss = Inr m \<Longrightarrow> constructed m"
  "ResultMessage_init i e r = Inr m \<Longrightarrow> constructed m"
  by (auto simp: ConnectMessage_init_def ResultMessage_init_def pybind_eq_Inr
      split: if_splits)

lemma constructed_Connect_init:
  assumes "constructed (ConnectMessage v s ss)"
  shows "\<exists>given. ConnectMessage_init v given ss = Inr (ConnectMessage v s ss)"
proof (cases s)
  case PNone
  then have "ConnectMessage_init v PNone ss = Inr (ConnectMessage v s ss)"
    by (simp add: ConnectMessage_init_def)
  then show ?thesis ..
next
  case (PList xs)
  with assms have ne: "xs \<noteq> []" by simp
  show ?thesis
  proof (cases "py_in v xs")
    case True
    have "ConnectMessage_init v (PList (v # xs)) ss = Inr (ConnectMessage v s ss)"
      using PList ne True py_eq_left_refl [of v]
      by (auto simp: ConnectMessage_init_def py_in_def list_ex_iff)
    then show ?thesis ..
  next
    case False
    then have "ConnectMessage_init v (PList xs) ss = Inr (ConnectMessage v s ss)"
      using PList ne by (simp add: ConnectMessage_init_def)
    then show ?thesis ..
  qed
qed (use assms in simp_all)

lemma constructed_Result_init:
  "constructed (ResultMessage i e r) \<Longrightarrow>
     ResultMessage_init i e r = Inr (ResultMessage i e r)"
  by (simp add: ResultMessage_init_def)

text \<open>
  C1, as the claim states it, fails in both directions. A connect pod whose support
  holds the version, or a pod with an optional key that holds \<^verbatim>\<open>None\<close>, or with a key
  the message does not have, is decoded and encoded into a different pod. The connect
  message that \<^verbatim>\<open>ConnectMessage('1', support=['1', '1'])\<close> builds stores the support
  \<^verbatim>\<open>['1']\<close>; decoding its pod removes the version again and gives a message without
  support, which is not equal to it. The pod of \<^verbatim>\<open>ConnectedMessage(NaN)\<close> is decoded to
  a message with the same session, and \<^verbatim>\<open>==\<close> finds the two unequal, since \<^verbatim>\<open>NaN\<close> is
  not equal to itself.
\<close>

theorem codec_roundtrip_counterexample:
  "ClientMessageFactory_create
      [(''msg'', PStr ''connect''), (''version'', PStr ''1''),
       (''support'', PList [PStr ''1'', PStr ''2''])]
     = Inr (ConnectMessage (PStr ''1'') (PList [PStr ''2'']) PNone)
   \<and> PodClientMessageFactory_create (ConnectMessage (PStr ''1'') (PList [PStr ''2'']) PNone)
     = Inr [(''msg'', PStr ''connect''), (''version'', PStr ''1''),
            (''support'', PList [PStr ''2''])]
   \<and> \<not> pod_equal
        [(''msg'', PStr ''connect''), (''version'', PStr ''1''),
         (''support'', PList [PStr ''2''])]
        [(''msg'', PStr ''connect''), (''version'', PStr ''1''),
         (''support'', PList [PStr ''1'', PStr ''2''])]
   \<and> ServerMessageFactory_create
        [(''msg'', PStr ''nosub''), (''id'', PStr ''1''), (''error'', PNone)]
     = Inr (NosubMessage (PStr ''1'') PNone)
   \<and> PodServerMessageFactroy_create (NosubMessage (PStr ''1'') PNone)
     = Inr [(''msg'', PStr ''nosub''), (''id'', PStr ''1'')]
   \<and> \<not> pod_equal [(''msg'', PStr ''nosub''), (''id'', PStr ''1'')]
        [(''msg'', PStr ''nosub''), (''id'', PStr ''1''), (''error'', PNone)]
   \<and> ServerMessageFactory_create
        [(''msg'', PStr ''ready''), (''subs'', PList []), (''server_id'', PStr ''0'')]
     = Inr (ReadyMessage (PList []))
   \<and> PodServerMessageFactroy_create (ReadyMessage (PList []))
     = Inr [(''msg'', PStr ''ready''), (''subs'', PList [])]
   \<and> \<not> pod_equal [(''msg'', PStr ''ready''), (''subs'', PList [])]
        [(''msg'', PStr ''ready''), (''subs'', PList []), (''server_id'', PStr ''0'')]
   \<and> ConnectMessage_init (PStr ''1'') (PList [PStr ''1'', PStr ''1'']) PNone
     = Inr (ConnectMessage (PStr ''1'') (PList [PStr ''1'']) PNone)
   \<and> PodClientMessageFactory_create (ConnectMessage (PStr ''1'') (PList [PStr ''1'']) PNone)
     = Inr [(''msg'', PStr ''connect''), (''version'', PStr ''1''),
            (''support'', PList [PStr ''1''])]
   \<and> ClientMessageFactory_create
        [(''msg'', PStr ''connect''), (''version'', PStr ''1''),
         (''support'', PList [PStr ''1''])]
     = Inr (ConnectMessage (PStr ''1'') PNone PNone)
   \<and> message_eq (ConnectMessage (PStr ''1'') PNone PNone)
        (ConnectMessage (PStr ''1'') (PList [PStr ''1'']) PNone)
     = Inr False
   \<and> PodServerMessageFactroy_create (ConnectedMessage (PFloat NaN))
     = Inr [(''msg'', PStr ''connected''), (''session'', PFloat NaN)]
   \<and> ServerMessageFactory_create [(''msg'', PStr ''connected''), (''session'', PFloat NaN)]
     = Inr (ConnectedMessage (PFloat NaN))
   \<and> message_eq (ConnectedMessage (PFloat NaN)) (ConnectedMessage (PFloat NaN)) = Inr False"
proof -
  have "\<not> pod_equal
        [(''msg'', PStr ''connect''), (''version'', PStr ''1''),
         (''support'', PList [PStr ''2''])]
        [(''msg'', PStr ''connect''), (''version'', PStr ''1''),
         (''support'', PList [PStr ''1'', PStr ''2''])]"
    by (rule pod_not_equalI [of "(''support'', PList [PStr ''1'', PStr ''2''])"]) simp_all
  moreover have "\<not> pod_equal [(''msg'', PStr ''nosub''), (''id'', PStr ''1'')]
        [(''msg'', PStr ''nosub''), (''id'', PStr ''1''), (''error'', PNone)]"
    by (rule pod_not_equalI [of "(''error'', PNone)"]) simp_all
  moreover have "\<not> pod_equal [(''msg'', PStr ''ready''), (''subs'', PList [])]
        [(''msg'', PStr ''ready''), (''subs'', PList []), (''server_id'', PStr ''0'')]"
    by (rule pod_not_equalI [of "(''server_id'', PStr ''0'')"]) simp_all
  ultimately show ?thesis
    using to_pod_client(1) [of "PStr ''1''" "PList [PStr ''2'']" PNone]
      to_pod_client(1) [of "PStr ''1''" "PList [PStr ''1'']" PNone]
      to_pod_server(8) [of "PStr ''1''" PNone]
      to_pod_server(9) [of "PList []"]
      to_pod_server(4) [of "PFloat NaN"]
    by (simp add: to_pod_def Connect_init_support getattr_def
          client_router_defs server_router_defs decoder_defs pod_getitem_def pod_get_def
          NosubMessage_init_def ReadyMessage_init_def ConnectedMessage_init_def copy_def)
qed

text \<open>
  C1, amended. Take a message that the constructors can return and whose fields hold no
  \<^verbatim>\<open>NaN\<close>, other than a connect message whose stored support still holds the preferred
  version: decoding the pod that encodes it gives a message with the same fields, which
  is \<^verbatim>\<open>==\<close> to it. A pod in canonical form for a registered discriminant (distinct
  keys, the discriminant, every required key, no key beyond the fields of the kind, no
  optional key that holds \<^verbatim>\<open>None\<close>, for connect a version without \<^verbatim>\<open>NaN\<close> and a
  support that is a non-empty list without the version, for result exactly one of error
  and result) is decoded to a message whose pod is equal to it up to the order of the
  keys.
\<close>

theorem codec_roundtrip:
  "(constructed m \<and> message_nan_free m \<and> support_elided m \<longrightarrow>
      (is_client m \<longrightarrow>
         (\<exists>pod m'. PodClientMessageFactory_create m = Inr pod
            \<and> ClientMessageFactory_create pod = Inr m'
            \<and> m' = m \<and> message_eq m' m = Inr True))
      \<and> (\<not> is_client m \<longrightarrow>
         (\<exists>pod m'. PodServerMessageFactroy_create m = Inr pod
            \<and> ServerMessageFactory_create pod = Inr m'
            \<and> m' = m \<and> message_eq m' m = Inr True)))
   \<and> (canonical_pod kind p \<longrightarrow>
      (kind \<in> set client_kinds \<longrightarrow>
         (\<exists>m q. ClientMessageFactory_create p = Inr m
            \<and> PodClientMessageFactory_create m = Inr q \<and> pod_equal q p))
      \<and> (kind \<in> set server_kinds \<longrightarrow>
         (\<exists>m q. ServerMessageFactory_create p = Inr m
            \<and> PodServerMessageFactroy_create m = Inr q \<and> pod_equal q p)))"
  using message_eq_refl [of m] message_roundtrip_client [of m] message_roundtrip_server [of m]
    pod_roundtrip_client [of kind p] pod_roundtrip_server [of kind p]
  by blast

theorem codec_roundtrip_witness:
  "constructed (ConnectMessage (PStr ''1'') (PList [PStr ''2'']) (PStr ''abc''))
   \<and> message_nan_free (ConnectMessage (PStr ''1'') (PList [PStr ''2'']) (PStr ''abc''))
   \<and> support_elided (ConnectMessage (PStr ''1'') (PList [PStr ''2'']) (PStr ''abc''))
   \<and> PodClientMessageFactory_create
         (ConnectMessage (PStr ''1'') (PList [PStr ''2'']) (PStr ''abc''))
       = Inr [(''msg'', PStr ''connect''), (''version'', PStr ''1''),
              (''support'', PList [PStr ''2'']), (''session'', PStr ''abc'')]
   \<and> ClientMessageFactory_create
         [(''msg'', PStr ''connect''), (''version'', PStr ''1''),
          (''support'', PList [PStr ''2'']), (''session'', PStr ''abc'')]
       = Inr (ConnectMessage (PStr ''1'') (PList [PStr ''2'']) (PStr ''abc''))
   \<and> message_eq (ConnectMessage (PStr ''1'') (PList [PStr ''2'']) (PStr ''abc''))
         (ConnectMessage (PStr ''1'') (PList [PStr ''2'']) (PStr ''abc''))
       = Inr True
   \<and> canonical_pod ''result''
        [(''result'', PInt 42), (''id'', PStr ''7''), (''msg'', PStr ''result'')]
   \<and> ServerMessageFactory_create
        [(''result'', PInt 42), (''id'', PStr ''7''), (''msg'', PStr ''result'')]
       = Inr (ResultMessage (PStr ''7'') PNone (PInt 42))
   \<and> PodServerMessageFactroy_create (ResultMessage (PStr ''7'') PNone (PInt 42))
       = Inr [(''msg'', PStr ''result''), (''id'', PStr ''7''), (''result'', PInt 42)]
   \<and> pod_equal [(''msg'', PStr ''result''), (''id'', PStr ''7''), (''result'', PInt 42)]
        [(''result'', PInt 42), (''id'', PStr ''7''), (''msg'', PStr ''result'')]"
  using codec_roundtrip
    [of "ConnectMessage (PStr ''1'') (PList [PStr ''2'']) (PStr ''abc'')" "''result''"
        "[(''result'', PInt 42), (''id'', PStr ''7''), (''msg'', PStr ''result'')]"]
    to_pod_client(1) [of "PStr ''1''" "PList [PStr ''2'']" "PStr ''abc''"]
    to_pod_server(11) [of "PStr ''7''" PNone "PInt 42"]
  by (auto simp: py_in_def canonical_pod_def pod_fields_def pod_keys_def pod_contains_def
        kind_condition_def server_kinds_def message_nan_free_def to_pod_def
        client_router_defs server_router_defs decoder_defs pod_getitem_def pod_get_def
        ConnectMessage_init_def ResultMessage_init_def nexists_pair getattr_def
        pod_equal_def)

end
